theory Spec2Isabelle
  imports Main
begin

section \<open>The environment specification\<close>

text \<open>
  The structures of package \<^verbatim>\<open>config\<close> that \<^verbatim>\<open>environment_spec_ext.go\<close> reads.
  A Go struct is a record; every field carries the prefix of its owner, because
  several structs share the field names \<^verbatim>\<open>ID\<close>, \<^verbatim>\<open>Name\<close>, \<^verbatim>\<open>In\<close> and \<^verbatim>\<open>Disabled\<close>
  (\<^verbatim>\<open>api.ID\<close> is \<open>api_ID api\<close>). A Go interface value is a datatype: one
  constructor for each type of the package that implements the interface, and
  one (\<open>OtherParamMatch\<close>, \<open>OtherJWKSSource\<close>) for the nil interface and every
  other dynamic type. A \<^verbatim>\<open>time.Duration\<close> is its number of nanoseconds.
\<close>

record StringTransformation =
  st_Template :: string
  st_Substitution :: string

datatype ParamMatch =
    Header string
  | Query string
  | JWTClaim string string
  | OtherParamMatch

record APIOperationParameter =
  p_Match :: ParamMatch
  p_Transformation :: StringTransformation

datatype JWKSSource =
    RemoteJWKS string int
  | OtherJWKSSource

record JWTAuthentication =
  jwt_Name :: string
  jwt_Issuer :: string
  jwt_JWKSSource :: JWKSSource
  jwt_Audiences :: "string list"
  jwt_In :: "APIOperationParameter list"

text \<open>
  \<^verbatim>\<open>AuthenticationRequirement\<close> is a struct of a flag and an interface value;
  \<^verbatim>\<open>AnyAuthenticationRequirements\<close> and \<^verbatim>\<open>AllAuthenticationRequirements\<close> are slices
  of \<^verbatim>\<open>AuthenticationRequirement\<close>, so the type is a tree. \<open>NilRequirements\<close> is
  the interface left unset, \<open>OtherRequirements\<close> a value of any dynamic type that no
  case of a type switch names.
\<close>

datatype AuthenticationRequirement =
    AuthenticationRequirement (Disabled: bool) (Requirements: AuthenticationRequirements)
and AuthenticationRequirements =
    JWTAuthentication JWTAuthentication
  | AnyAuthenticationRequirements "AuthenticationRequirement list"
  | AllAuthenticationRequirements "AuthenticationRequirement list"
  | NilRequirements
  | OtherRequirements

record ConsumerAuthorization =
  ca_Disabled :: bool
  ca_In :: "APIOperationParameter list"

record AddNameValue =
  anv_Name :: string
  anv_Value :: string
  anv_Overwrite :: bool

record NameValueTransforms =
  nvt_Add :: "AddNameValue list"
  nvt_Remove :: "string list"

record HTTPRequestTransforms =
  t_HeaderTransforms :: NameValueTransforms
  t_QueryTransforms :: NameValueTransforms
  t_PathTransform :: string

record HTTPMatch =
  m_PathTemplate :: string
  m_Method :: string

record CorsPolicy =
  cors_AllowOrigins :: "string list"
  cors_AllowOriginsRegexes :: "string list"

text \<open>
  \<^verbatim>\<open>jwtAuthentications\<close> is the unexported cache of an API and of an operation:
  the flattened list of its JWT requirements, a slice of pointers into the
  requirement tree. The model holds the values pointed to.
\<close>

record APIOperation =
  op_Name :: string
  op_HTTPMatches :: "HTTPMatch list"
  op_Authentication :: AuthenticationRequirement
  op_ConsumerAuthorization :: ConsumerAuthorization
  op_HTTPRequestTransforms :: HTTPRequestTransforms
  op_jwtAuthentications :: "JWTAuthentication list"

record APISpec =
  api_ID :: string
  api_BasePath :: string
  api_Authentication :: AuthenticationRequirement
  api_ConsumerAuthorization :: ConsumerAuthorization
  api_Operations :: "APIOperation list"
  api_HTTPRequestTransforms :: HTTPRequestTransforms
  api_Cors :: CorsPolicy
  api_jwtAuthentications :: "JWTAuthentication list"

record EnvironmentSpec =
  es_ID :: string
  es_APIs :: "APISpec list"

section \<open>Emptiness\<close>

text \<open>\<^verbatim>\<open>func (c ConsumerAuthorization) isEmpty() bool\<close>\<close>

definition ConsumerAuthorization_isEmpty :: "ConsumerAuthorization \<Rightarrow> bool" where
  "ConsumerAuthorization_isEmpty c = (\<not> ca_Disabled c \<and> length (ca_In c) = 0)"

text \<open>
  \<^verbatim>\<open>func isEmpty(auth AuthenticationRequirement) bool\<close>: a type switch on the
  interface value. The JWT case returns false. The two slice cases run a loop
  that returns false at the first child that is not empty, and otherwise fall
  out of the switch to the final \<^verbatim>\<open>return true\<close>, which is also where a value
  that matches no case arrives. \<open>isEmpty_range\<close> is that loop.
\<close>

fun isEmpty :: "AuthenticationRequirement \<Rightarrow> bool"
  and isEmpty_range :: "AuthenticationRequirement list \<Rightarrow> bool" where
  "isEmpty (AuthenticationRequirement d (JWTAuthentication j)) = False"
| "isEmpty (AuthenticationRequirement d (AnyAuthenticationRequirements rs)) = isEmpty_range rs"
| "isEmpty (AuthenticationRequirement d (AllAuthenticationRequirements rs)) = isEmpty_range rs"
| "isEmpty (AuthenticationRequirement d NilRequirements) = True"
| "isEmpty (AuthenticationRequirement d OtherRequirements) = True"
| "isEmpty_range [] = True"
| "isEmpty_range (r # rs) = (if \<not> isEmpty r then False else isEmpty_range rs)"

text \<open>\<^verbatim>\<open>func (a AuthenticationRequirement) IsEmpty() bool\<close>\<close>

definition IsEmpty :: "AuthenticationRequirement \<Rightarrow> bool" where
  "IsEmpty a = (\<not> Disabled a \<and> isEmpty a)"

text \<open>
  The words of the specification, for comparison with the code: a requirement
  tree contains a JWT leaf at some depth.
\<close>

fun containsJWT :: "AuthenticationRequirement \<Rightarrow> bool"
  and containsJWT_some :: "AuthenticationRequirement list \<Rightarrow> bool" where
  "containsJWT (AuthenticationRequirement d (JWTAuthentication j)) = True"
| "containsJWT (AuthenticationRequirement d (AnyAuthenticationRequirements rs)) = containsJWT_some rs"
| "containsJWT (AuthenticationRequirement d (AllAuthenticationRequirements rs)) = containsJWT_some rs"
| "containsJWT (AuthenticationRequirement d NilRequirements) = False"
| "containsJWT (AuthenticationRequirement d OtherRequirements) = False"
| "containsJWT_some [] = False"
| "containsJWT_some (r # rs) = (containsJWT r \<or> containsJWT_some rs)"

text \<open>The interface value is one of the three variants the type switch names.\<close>

fun knownVariant :: "AuthenticationRequirements \<Rightarrow> bool" where
  "knownVariant (JWTAuthentication j) = True"
| "knownVariant (AnyAuthenticationRequirements rs) = True"
| "knownVariant (AllAuthenticationRequirements rs) = True"
| "knownVariant NilRequirements = False"
| "knownVariant OtherRequirements = False"

section \<open>The extension object\<close>

text \<open>\<^verbatim>\<open>const wildcard = "*"\<close>\<close>

definition wildcard :: string where
  "wildcard = ''*''"

text \<open>
  \<^verbatim>\<open>strings.Split(s, sep)\<close> for a separator of one byte, which is how the code
  calls it (\<^verbatim>\<open>"/"\<close>): the pieces of \<open>s\<close> between the separators, so one piece
  more than there are separators, and the one empty piece for the empty string.
\<close>

fun Split :: "string \<Rightarrow> char \<Rightarrow> string list" where
  "Split [] sep = [[]]"
| "Split (c # cs) sep =
     (if c = sep then [] # Split cs sep
      else (case Split cs sep of [] \<Rightarrow> [[c]] | piece # pieces \<Rightarrow> (c # piece) # pieces))"

text \<open>
  \<^verbatim>\<open>type OpTemplateMatch struct\<close>; the template pointer is nil for an operation
  without HTTP matches and for an empty path template.
\<close>

record 't OpTemplateMatch =
  operation :: APIOperation
  template :: "'t option"

text \<open>
  \<^verbatim>\<open>type EnvironmentSpecExt struct\<close>. \<open>'t\<close> is \<^verbatim>\<open>transform.Template\<close> and \<open>'r\<close> is
  \<^verbatim>\<open>regexp.Regexp\<close>. The two \<^verbatim>\<open>path.Tree\<close> values belong to a library outside the
  repository, whose only operation called here is \<^verbatim>\<open>AddChild(split, 0, value)\<close>:
  a tree is modelled by the insertions made into it, in the order they were
  made, each the key (the segments) and the value.
\<close>

record ('t, 'r) EnvironmentSpecExt =
  EnvironmentSpec :: EnvironmentSpec
  apiPathTree :: "(string list \<times> APISpec) list"
  opPathTree :: "(string list \<times> 't OpTemplateMatch) list"
  compiledTemplates :: "string \<rightharpoonup> 't"
  corsVary :: "string \<rightharpoonup> bool"
  corsAllowedOrigins :: "string \<rightharpoonup> (string \<rightharpoonup> bool)"
  compiledRegExps :: "string \<rightharpoonup> 'r"

text \<open>
  How a call ends when it does not return a value: \<open>Returned err\<close> is the error
  returned, \<open>Panicked\<close> is the panic of \<^verbatim>\<open>regexp.MustCompile\<close> on a pattern that
  does not compile.
\<close>

datatype 'e failure = Returned 'e | Panicked

text \<open>
  \<^verbatim>\<open>func (e EnvironmentSpecExt) JWTAuthentications() []*JWTAuthentication\<close>: for
  each API, its own flattened list is appended, then the flattened list of each
  of its operations. The innermost loops append the elements of one list one by
  one, which is \<open>@\<close>.
\<close>

fun JWTAuthentications_operations ::
  "JWTAuthentication list \<Rightarrow> APIOperation list \<Rightarrow> JWTAuthentication list" where
  "JWTAuthentications_operations auths [] = auths"
| "JWTAuthentications_operations auths (op # ops) =
     JWTAuthentications_operations (auths @ op_jwtAuthentications op) ops"

fun JWTAuthentications_apis ::
  "JWTAuthentication list \<Rightarrow> APISpec list \<Rightarrow> JWTAuthentication list" where
  "JWTAuthentications_apis auths [] = auths"
| "JWTAuthentications_apis auths (api # apis) =
     JWTAuthentications_apis
       (JWTAuthentications_operations (auths @ api_jwtAuthentications api) (api_Operations api))
       apis"

definition JWTAuthentications :: "('t, 'r) EnvironmentSpecExt \<Rightarrow> JWTAuthentication list" where
  "JWTAuthentications e = JWTAuthentications_apis [] (es_APIs (EnvironmentSpec e))"

text \<open>
  \<^verbatim>\<open>func (e *EnvironmentSpecExt) parseTemplate(templateString string)\<close>.
  \<open>Parse\<close> is \<^verbatim>\<open>transform.Parse\<close>, a parameter. When \<open>Parse\<close> fails the Go code
  still stores what it returned before it returns the error; every caller
  passes the error up and \<^verbatim>\<open>NewEnvironmentSpecExt\<close> then returns no object, so the
  model keeps no state on that branch.
\<close>

definition parseTemplate ::
  "(string \<Rightarrow> 'e + 't) \<Rightarrow> ('t, 'r) EnvironmentSpecExt \<Rightarrow> string
    \<Rightarrow> 'e failure + ('t, 'r) EnvironmentSpecExt \<times> 't option" where
  "parseTemplate Parse e templateString =
     (if templateString = [] then Inr (e, None)
      else (case Parse templateString of
              Inl err \<Rightarrow> Inl (Returned err)
            | Inr t \<Rightarrow>
                Inr (e\<lparr>compiledTemplates := (compiledTemplates e)(templateString \<mapsto> t)\<rparr>, Some t)))"

text \<open>\<^verbatim>\<open>func (e *EnvironmentSpecExt) parseAPIOperationParameter(s StringTransformation) error\<close>\<close>

definition parseAPIOperationParameter ::
  "(string \<Rightarrow> 'e + 't) \<Rightarrow> ('t, 'r) EnvironmentSpecExt \<Rightarrow> StringTransformation
    \<Rightarrow> 'e failure + ('t, 'r) EnvironmentSpecExt" where
  "parseAPIOperationParameter Parse e s =
     (if st_Template s = [] \<and> st_Substitution s = [] then Inr e
      else (case parseTemplate Parse e (st_Template s) of
              Inl err \<Rightarrow> Inl err
            | Inr (e1, _) \<Rightarrow>
                (case parseTemplate Parse e1 (st_Substitution s) of
                   Inl err \<Rightarrow> Inl err
                 | Inr (e2, _) \<Rightarrow> Inr e2)))"

text \<open>\<^verbatim>\<open>func (e *EnvironmentSpecExt) GetTemplate(templateString string) *transform.Template\<close>\<close>

definition GetTemplate :: "('t, 'r) EnvironmentSpecExt \<Rightarrow> string \<Rightarrow> 't option" where
  "GetTemplate e templateString = compiledTemplates e templateString"

text \<open>
  The loops \<^verbatim>\<open>for _, in := range \<dots>.In\<close> of \<^verbatim>\<open>NewEnvironmentSpecExt\<close>, which
  parse the transformation of every parameter and return the first error.
\<close>

fun parseParameters ::
  "(string \<Rightarrow> 'e + 't) \<Rightarrow> ('t, 'r) EnvironmentSpecExt \<Rightarrow> APIOperationParameter list
    \<Rightarrow> 'e failure + ('t, 'r) EnvironmentSpecExt" where
  "parseParameters Parse e [] = Inr e"
| "parseParameters Parse e (p # ps) =
     (case parseAPIOperationParameter Parse e (p_Transformation p) of
        Inl err \<Rightarrow> Inl err
      | Inr e1 \<Rightarrow> parseParameters Parse e1 ps)"

text \<open>The loops over \<^verbatim>\<open>t.HeaderTransforms.Add\<close> and \<^verbatim>\<open>t.QueryTransforms.Add\<close>.\<close>

fun parseAdds ::
  "(string \<Rightarrow> 'e + 't) \<Rightarrow> ('t, 'r) EnvironmentSpecExt \<Rightarrow> AddNameValue list
    \<Rightarrow> 'e failure + ('t, 'r) EnvironmentSpecExt" where
  "parseAdds Parse e [] = Inr e"
| "parseAdds Parse e (a # as) =
     (case parseTemplate Parse e (anv_Value a) of
        Inl err \<Rightarrow> Inl err
      | Inr (e1, _) \<Rightarrow> parseAdds Parse e1 as)"

text \<open>The closure \<^verbatim>\<open>parseHTTPRequestTransforms\<close> of \<^verbatim>\<open>NewEnvironmentSpecExt\<close>.\<close>

definition parseHTTPRequestTransforms ::
  "(string \<Rightarrow> 'e + 't) \<Rightarrow> ('t, 'r) EnvironmentSpecExt \<Rightarrow> HTTPRequestTransforms
    \<Rightarrow> 'e failure + ('t, 'r) EnvironmentSpecExt" where
  "parseHTTPRequestTransforms Parse e t =
     (case parseTemplate Parse e (t_PathTransform t) of
        Inl err \<Rightarrow> Inl err
      | Inr (e1, _) \<Rightarrow>
          (case parseAdds Parse e1 (nvt_Add (t_HeaderTransforms t)) of
             Inl err \<Rightarrow> Inl err
           | Inr e2 \<Rightarrow> parseAdds Parse e2 (nvt_Add (t_QueryTransforms t))))"

text \<open>
  The loop over \<^verbatim>\<open>api.Cors.AllowOrigins\<close> (lines 50 to 55): it fills the set of
  allowed origins and raises \<^verbatim>\<open>mustVary\<close> at the wildcard origin.
\<close>

fun allowOrigins_range ::
  "(string \<rightharpoonup> bool) \<times> bool \<Rightarrow> string list \<Rightarrow> (string \<rightharpoonup> bool) \<times> bool" where
  "allowOrigins_range (allowedOrigins, mustVary) [] = (allowedOrigins, mustVary)"
| "allowOrigins_range (allowedOrigins, mustVary) (origin # origins) =
     allowOrigins_range
       (allowedOrigins(origin \<mapsto> True), (if origin = wildcard then True else mustVary))
       origins"

text \<open>
  The loop over \<^verbatim>\<open>api.Cors.AllowOriginsRegexes\<close>. \<open>MustCompile\<close> is
  \<^verbatim>\<open>regexp.MustCompile\<close>, a parameter: \<open>None\<close> where it panics.
\<close>

fun compileRegexes ::
  "(string \<Rightarrow> 'r option) \<Rightarrow> ('t, 'r) EnvironmentSpecExt \<Rightarrow> string list
    \<Rightarrow> 'e failure + ('t, 'r) EnvironmentSpecExt" where
  "compileRegexes MustCompile e [] = Inr e"
| "compileRegexes MustCompile e (r # rs) =
     (case MustCompile r of
        None \<Rightarrow> Inl Panicked
      | Some re \<Rightarrow>
          compileRegexes MustCompile (e\<lparr>compiledRegExps := (compiledRegExps e)(r \<mapsto> re)\<rparr>) rs)"

text \<open>
  The loop over \<^verbatim>\<open>op.HTTPMatches\<close> (lines 106 to 122). \<open>anyMethod\<close> is a
  constant of the package that is declared outside the files at hand, a
  parameter.
\<close>

fun addHTTPMatches ::
  "(string \<Rightarrow> 'e + 't) \<Rightarrow> string \<Rightarrow> ('t, 'r) EnvironmentSpecExt \<Rightarrow> APISpec \<Rightarrow> APIOperation
    \<Rightarrow> HTTPMatch list \<Rightarrow> 'e failure + ('t, 'r) EnvironmentSpecExt" where
  "addHTTPMatches Parse anyMethod e api op [] = Inr e"
| "addHTTPMatches Parse anyMethod e api op (m # ms) =
     (let split = Split (m_PathTemplate m) CHR ''/'';
          method = (if m_Method m = anyMethod then wildcard else m_Method m);
          split = [api_ID api, method] @ split
      in (case parseTemplate Parse e (m_PathTemplate m) of
            Inl err \<Rightarrow> Inl err
          | Inr (e1, t) \<Rightarrow>
              addHTTPMatches Parse anyMethod
                (e1\<lparr>opPathTree := opPathTree e1 @ [(split, \<lparr>operation = op, template = t\<rparr>)]\<rparr>)
                api op ms))"

text \<open>The body of the loop over \<^verbatim>\<open>api.Operations\<close> (lines 99 to 135).\<close>

definition addOperation ::
  "(string \<Rightarrow> 'e + 't) \<Rightarrow> string \<Rightarrow> ('t, 'r) EnvironmentSpecExt \<Rightarrow> APISpec \<Rightarrow> APIOperation
    \<Rightarrow> 'e failure + ('t, 'r) EnvironmentSpecExt" where
  "addOperation Parse anyMethod e api op =
     (case (if length (op_HTTPMatches op) = 0
            then Inr (e\<lparr>opPathTree := opPathTree e @
                     [([api_ID api, wildcard, wildcard], \<lparr>operation = op, template = None\<rparr>)]\<rparr>)
            else addHTTPMatches Parse anyMethod e api op (op_HTTPMatches op)) of
        Inl err \<Rightarrow> Inl err
      | Inr e1 \<Rightarrow>
          (case parseParameters Parse e1 (ca_In (op_ConsumerAuthorization op)) of
             Inl err \<Rightarrow> Inl err
           | Inr e2 \<Rightarrow> parseHTTPRequestTransforms Parse e2 (op_HTTPRequestTransforms op)))"

fun addOperations ::
  "(string \<Rightarrow> 'e + 't) \<Rightarrow> string \<Rightarrow> ('t, 'r) EnvironmentSpecExt \<Rightarrow> APISpec
    \<Rightarrow> APIOperation list \<Rightarrow> 'e failure + ('t, 'r) EnvironmentSpecExt" where
  "addOperations Parse anyMethod e api [] = Inr e"
| "addOperations Parse anyMethod e api (op # ops) =
     (case addOperation Parse anyMethod e api op of
        Inl err \<Rightarrow> Inl err
      | Inr e1 \<Rightarrow> addOperations Parse anyMethod e1 api ops)"

text \<open>The body of the loop over \<^verbatim>\<open>spec.APIs\<close> (lines 42 to 136).\<close>

definition addAPI ::
  "(string \<Rightarrow> 'e + 't) \<Rightarrow> (string \<Rightarrow> 'r option) \<Rightarrow> string \<Rightarrow> ('t, 'r) EnvironmentSpecExt
    \<Rightarrow> APISpec \<Rightarrow> 'e failure + ('t, 'r) EnvironmentSpecExt" where
  "addAPI Parse MustCompile anyMethod e api =
     (let split = Split (api_BasePath api) CHR ''/'';
          split = [''/''] @ split;
          e1 = e\<lparr>apiPathTree := apiPathTree e @ [(split, api)]\<rparr>;
          (allowedOrigins, mustVary) =
             allowOrigins_range (Map.empty, False) (cors_AllowOrigins (api_Cors api));
          e2 = e1\<lparr>corsAllowedOrigins := (corsAllowedOrigins e1)(api_ID api \<mapsto> allowedOrigins)\<rparr>
      in (case compileRegexes MustCompile e2 (cors_AllowOriginsRegexes (api_Cors api)) of
            Inl err \<Rightarrow> Inl err
          | Inr e3 \<Rightarrow>
              (let e4 = e3\<lparr>corsVary := (corsVary e3)(api_ID api \<mapsto>
                          (mustVary \<or> length (cors_AllowOriginsRegexes (api_Cors api)) > 0
                            \<or> length (cors_AllowOrigins (api_Cors api)) > 1))\<rparr>
               in (case parseParameters Parse e4 (ca_In (api_ConsumerAuthorization api)) of
                     Inl err \<Rightarrow> Inl err
                   | Inr e5 \<Rightarrow>
                       (case parseHTTPRequestTransforms Parse e5 (api_HTTPRequestTransforms api) of
                          Inl err \<Rightarrow> Inl err
                        | Inr e6 \<Rightarrow>
                            addOperations Parse anyMethod e6 api (api_Operations api))))))"

fun addAPIs ::
  "(string \<Rightarrow> 'e + 't) \<Rightarrow> (string \<Rightarrow> 'r option) \<Rightarrow> string \<Rightarrow> ('t, 'r) EnvironmentSpecExt
    \<Rightarrow> APISpec list \<Rightarrow> 'e failure + ('t, 'r) EnvironmentSpecExt" where
  "addAPIs Parse MustCompile anyMethod e [] = Inr e"
| "addAPIs Parse MustCompile anyMethod e (api # apis) =
     (case addAPI Parse MustCompile anyMethod e api of
        Inl err \<Rightarrow> Inl err
      | Inr e1 \<Rightarrow> addAPIs Parse MustCompile anyMethod e1 apis)"

text \<open>The last loop (lines 139 to 146), over the flattened JWT requirements.\<close>

fun parseJWTAuthentications ::
  "(string \<Rightarrow> 'e + 't) \<Rightarrow> ('t, 'r) EnvironmentSpecExt \<Rightarrow> JWTAuthentication list
    \<Rightarrow> 'e failure + ('t, 'r) EnvironmentSpecExt" where
  "parseJWTAuthentications Parse e [] = Inr e"
| "parseJWTAuthentications Parse e (j # js) =
     (case parseParameters Parse e (jwt_In j) of
        Inl err \<Rightarrow> Inl err
      | Inr e1 \<Rightarrow> parseJWTAuthentications Parse e1 js)"

text \<open>\<^verbatim>\<open>func NewEnvironmentSpecExt(spec *EnvironmentSpec) (*EnvironmentSpecExt, error)\<close>\<close>

definition NewEnvironmentSpecExt ::
  "(string \<Rightarrow> 'e + 't) \<Rightarrow> (string \<Rightarrow> 'r option) \<Rightarrow> string \<Rightarrow> EnvironmentSpec
    \<Rightarrow> 'e failure + ('t, 'r) EnvironmentSpecExt" where
  "NewEnvironmentSpecExt Parse MustCompile anyMethod spec =
     (let ec = \<lparr>EnvironmentSpec = spec, apiPathTree = [], opPathTree = [],
                compiledTemplates = Map.empty, corsVary = Map.empty,
                corsAllowedOrigins = Map.empty, compiledRegExps = Map.empty\<rparr>
      in (case addAPIs Parse MustCompile anyMethod ec (es_APIs spec) of
            Inl err \<Rightarrow> Inl err
          | Inr ec1 \<Rightarrow> parseJWTAuthentications Parse ec1 (JWTAuthentications ec1)))"

section \<open>The flattened JWT requirements\<close>

text \<open>
  Modelled from the spec: the validator (\<^verbatim>\<open>ValidateEnvironmentSpecs\<close>), which fills
  the \<^verbatim>\<open>jwtAuthentications\<close> cache of every API and operation, is not among the
  files at hand. The specification has it collect every JWT requirement leaf
  reachable from the requirement tree, depth first, in the order of the
  traversal.
\<close>

fun flattenJWTs :: "AuthenticationRequirement \<Rightarrow> JWTAuthentication list"
  and flattenJWTs_children :: "AuthenticationRequirement list \<Rightarrow> JWTAuthentication list" where
  "flattenJWTs (AuthenticationRequirement d (JWTAuthentication j)) = [j]"
| "flattenJWTs (AuthenticationRequirement d (AnyAuthenticationRequirements rs)) = flattenJWTs_children rs"
| "flattenJWTs (AuthenticationRequirement d (AllAuthenticationRequirements rs)) = flattenJWTs_children rs"
| "flattenJWTs (AuthenticationRequirement d NilRequirements) = []"
| "flattenJWTs (AuthenticationRequirement d OtherRequirements) = []"
| "flattenJWTs_children [] = []"
| "flattenJWTs_children (r # rs) = flattenJWTs r @ flattenJWTs_children rs"

text \<open>
  The state validation leaves a specification in, as far as the extension object
  reads it: every cache holds the flattened list of its own requirement tree.
\<close>

definition flattenedOperation :: "APIOperation \<Rightarrow> bool" where
  "flattenedOperation op = (op_jwtAuthentications op = flattenJWTs (op_Authentication op))"

definition flattenedAPI :: "APISpec \<Rightarrow> bool" where
  "flattenedAPI api =
     (api_jwtAuthentications api = flattenJWTs (api_Authentication api)
      \<and> list_all flattenedOperation (api_Operations api))"

definition flattenedSpec :: "EnvironmentSpec \<Rightarrow> bool" where
  "flattenedSpec spec = list_all flattenedAPI (es_APIs spec)"

text \<open>
  The words of the specification for the aggregate accessor, read as they stand:
  every API's flattened list, followed by every operation's flattened list,
  across the whole specification.
\<close>

definition allAPIsThenAllOperations :: "EnvironmentSpec \<Rightarrow> JWTAuthentication list" where
  "allAPIsThenAllOperations spec =
     concat (map api_jwtAuthentications (es_APIs spec))
     @ concat (map op_jwtAuthentications (concat (map api_Operations (es_APIs spec))))"

section \<open>The raw template strings of a specification\<close>

text \<open>
  The words of the specification, for comparison with the code: the raw template
  strings at all positions of a specification, which are the path templates of
  the HTTP matches, the path, header and query transforms, and the template and
  substitution of every parameter binding (of a consumer authorization and of a
  JWT requirement of a requirement tree).
\<close>

definition parameterTemplates :: "APIOperationParameter list \<Rightarrow> string list" where
  "parameterTemplates ps =
     concat (map (\<lambda>p. [st_Template (p_Transformation p), st_Substitution (p_Transformation p)]) ps)"

definition transformTemplates :: "HTTPRequestTransforms \<Rightarrow> string list" where
  "transformTemplates t =
     t_PathTransform t # map anv_Value (nvt_Add (t_HeaderTransforms t))
       @ map anv_Value (nvt_Add (t_QueryTransforms t))"

definition jwtTemplates :: "JWTAuthentication list \<Rightarrow> string list" where
  "jwtTemplates js = concat (map (\<lambda>j. parameterTemplates (jwt_In j)) js)"

definition operationTemplates :: "APIOperation \<Rightarrow> string list" where
  "operationTemplates op =
     map m_PathTemplate (op_HTTPMatches op)
     @ transformTemplates (op_HTTPRequestTransforms op)
     @ parameterTemplates (ca_In (op_ConsumerAuthorization op))
     @ jwtTemplates (flattenJWTs (op_Authentication op))"

definition apiTemplates :: "APISpec \<Rightarrow> string list" where
  "apiTemplates api =
     transformTemplates (api_HTTPRequestTransforms api)
     @ parameterTemplates (ca_In (api_ConsumerAuthorization api))
     @ jwtTemplates (flattenJWTs (api_Authentication api))
     @ concat (map operationTemplates (api_Operations api))"

definition rawTemplateStrings :: "EnvironmentSpec \<Rightarrow> string list" where
  "rawTemplateStrings spec = concat (map apiTemplates (es_APIs spec))"

text \<open>
  The same positions, with the JWT requirements of an API and of an operation
  taken from its flattened list, which is where the construction reads them.
\<close>

definition operationListedTemplates :: "APIOperation \<Rightarrow> string list" where
  "operationListedTemplates op =
     map m_PathTemplate (op_HTTPMatches op)
     @ transformTemplates (op_HTTPRequestTransforms op)
     @ parameterTemplates (ca_In (op_ConsumerAuthorization op))
     @ jwtTemplates (op_jwtAuthentications op)"

definition apiListedTemplates :: "APISpec \<Rightarrow> string list" where
  "apiListedTemplates api =
     transformTemplates (api_HTTPRequestTransforms api)
     @ parameterTemplates (ca_In (api_ConsumerAuthorization api))
     @ jwtTemplates (api_jwtAuthentications api)
     @ concat (map operationListedTemplates (api_Operations api))"

definition listedTemplateStrings :: "EnvironmentSpec \<Rightarrow> string list" where
  "listedTemplateStrings spec = concat (map apiListedTemplates (es_APIs spec))"

section \<open>The serialization contract of a requirement\<close>

text \<open>
  Modelled from the spec: the YAML codec of package \<^verbatim>\<open>config\<close> (the methods
  \<^verbatim>\<open>MarshalYAML\<close> and \<^verbatim>\<open>UnmarshalYAML\<close> of \<^verbatim>\<open>AuthenticationRequirement\<close>,
  \<^verbatim>\<open>JWTAuthentication\<close> and \<^verbatim>\<open>APIOperationParameter\<close>) is not among the files at
  hand; only its tests are. The textual form is a YAML document, modelled as
  its tree of nodes: a scalar (held as the value it spells: a string, a boolean
  or a duration), a sequence, or a mapping, the list of its keys with their
  values in the order they are written. The keys are those of the documents in
  the tests.
\<close>

datatype yaml =
    YString string
  | YBool bool
  | YDuration int
  | YSeq "yaml list"
  | YMap "(string \<times> yaml) list"

text \<open>
  Modelled from the spec: the errors of encoding, for a requirement variant, a
  JWKS source variant and a parameter match that encoding does not support (the
  tests expect the messages \<^verbatim>\<open>unsupported jwks source\<close> and
  \<^verbatim>\<open>unsupported match type\<close> of the last two).
\<close>

datatype marshal_error = UnsupportedRequirements | UnsupportedJWKSSource | UnsupportedMatchType

text \<open>
  Modelled from the spec: the errors of decoding. \<open>Message m\<close> is an error of
  the package with the message \<open>m\<close>; \<open>WrongKind\<close> is the error of the YAML library
  for a node that is not of the kind the field needs, whose text is not
  modelled.
\<close>

datatype unmarshal_error = Message string | WrongKind

text \<open>
  Modelled from the spec: reading the fields of a mapping. A key that is absent
  leaves the zero value of the field.
\<close>

definition getString :: "(string \<times> yaml) list \<Rightarrow> string \<Rightarrow> unmarshal_error + string" where
  "getString kvs key =
     (case map_of kvs key of
        None \<Rightarrow> Inr []
      | Some (YString s) \<Rightarrow> Inr s
      | Some _ \<Rightarrow> Inl WrongKind)"

definition getBool :: "(string \<times> yaml) list \<Rightarrow> string \<Rightarrow> unmarshal_error + bool" where
  "getBool kvs key =
     (case map_of kvs key of
        None \<Rightarrow> Inr False
      | Some (YBool b) \<Rightarrow> Inr b
      | Some _ \<Rightarrow> Inl WrongKind)"

definition getDuration :: "(string \<times> yaml) list \<Rightarrow> string \<Rightarrow> unmarshal_error + int" where
  "getDuration kvs key =
     (case map_of kvs key of
        None \<Rightarrow> Inr 0
      | Some (YDuration d) \<Rightarrow> Inr d
      | Some _ \<Rightarrow> Inl WrongKind)"

fun getStrings :: "yaml list \<Rightarrow> unmarshal_error + string list" where
  "getStrings [] = Inr []"
| "getStrings (YString s # ys) =
     (case getStrings ys of Inl err \<Rightarrow> Inl err | Inr ss \<Rightarrow> Inr (s # ss))"
| "getStrings (y # ys) = Inl WrongKind"

text \<open>
  Modelled from the spec: encoding a parameter binding, whose code is missing.
  The match is written under the key of its kind, \<^verbatim>\<open>header\<close>, \<^verbatim>\<open>query\<close> or
  \<^verbatim>\<open>jwt_claim\<close>, and a match of any other type is rejected; a transformation
  that is not the zero value is written under \<^verbatim>\<open>transformation\<close>.
\<close>

definition marshalTransformation :: "StringTransformation \<Rightarrow> (string \<times> yaml) list" where
  "marshalTransformation t =
     (if st_Template t = [] \<and> st_Substitution t = [] then []
      else [(''transformation'',
             YMap [(''template'', YString (st_Template t)),
                   (''substitution'', YString (st_Substitution t))])])"

definition marshalParameter :: "APIOperationParameter \<Rightarrow> marshal_error + yaml" where
  "marshalParameter p =
     (case p_Match p of
        Header h \<Rightarrow>
          Inr (YMap ((''header'', YString h) # marshalTransformation (p_Transformation p)))
      | Query q \<Rightarrow>
          Inr (YMap ((''query'', YString q) # marshalTransformation (p_Transformation p)))
      | JWTClaim requirement name \<Rightarrow>
          Inr (YMap ((''jwt_claim'',
                      YMap [(''requirement'', YString requirement), (''name'', YString name)])
                     # marshalTransformation (p_Transformation p)))
      | OtherParamMatch \<Rightarrow> Inl UnsupportedMatchType)"

fun marshalParameters :: "APIOperationParameter list \<Rightarrow> marshal_error + yaml list" where
  "marshalParameters [] = Inr []"
| "marshalParameters (p # ps) =
     (case marshalParameter p of
        Inl err \<Rightarrow> Inl err
      | Inr y \<Rightarrow>
          (case marshalParameters ps of
             Inl err \<Rightarrow> Inl err
           | Inr ys \<Rightarrow> Inr (y # ys)))"

text \<open>
  Modelled from the spec: decoding a parameter binding, whose code is missing.
  Precisely one of the keys \<^verbatim>\<open>header\<close>, \<^verbatim>\<open>query\<close>, \<^verbatim>\<open>jwt_claim\<close> must be set;
  the message is the one \<^verbatim>\<open>TestUnmarshalAPIOperationParameterError\<close> expects,
  which ends with the number of keys set.
\<close>

definition unmarshalTransformation ::
  "(string \<times> yaml) list \<Rightarrow> unmarshal_error + StringTransformation" where
  "unmarshalTransformation kvs =
     (case map_of kvs ''transformation'' of
        None \<Rightarrow> Inr \<lparr>st_Template = [], st_Substitution = []\<rparr>
      | Some (YMap t) \<Rightarrow>
          (case getString t ''template'' of
             Inl err \<Rightarrow> Inl err
           | Inr tmpl \<Rightarrow>
               (case getString t ''substitution'' of
                  Inl err \<Rightarrow> Inl err
                | Inr subst \<Rightarrow> Inr \<lparr>st_Template = tmpl, st_Substitution = subst\<rparr>))
      | Some _ \<Rightarrow> Inl WrongKind)"

definition unmarshalMatch ::
  "(string \<times> yaml) list \<Rightarrow> string \<Rightarrow> (string \<Rightarrow> ParamMatch) \<Rightarrow> unmarshal_error + ParamMatch option" where
  "unmarshalMatch kvs key kind =
     (case map_of kvs key of
        None \<Rightarrow> Inr None
      | Some (YString s) \<Rightarrow> Inr (Some (kind s))
      | Some _ \<Rightarrow> Inl WrongKind)"

definition unmarshalJWTClaim :: "(string \<times> yaml) list \<Rightarrow> unmarshal_error + ParamMatch option" where
  "unmarshalJWTClaim kvs =
     (case map_of kvs ''jwt_claim'' of
        None \<Rightarrow> Inr None
      | Some (YMap c) \<Rightarrow>
          (case getString c ''requirement'' of
             Inl err \<Rightarrow> Inl err
           | Inr requirement \<Rightarrow>
               (case getString c ''name'' of
                  Inl err \<Rightarrow> Inl err
                | Inr name \<Rightarrow> Inr (Some (JWTClaim requirement name))))
      | Some _ \<Rightarrow> Inl WrongKind)"

definition digit :: "nat \<Rightarrow> string" where
  "digit n = [char_of (48 + n)]"

definition unmarshalParameter :: "yaml \<Rightarrow> unmarshal_error + APIOperationParameter" where
  "unmarshalParameter y =
     (case y of
        YMap kvs \<Rightarrow>
          (case unmarshalTransformation kvs of
             Inl err \<Rightarrow> Inl err
           | Inr transformation \<Rightarrow>
          (case unmarshalMatch kvs ''header'' Header of
             Inl err \<Rightarrow> Inl err
           | Inr header \<Rightarrow>
          (case unmarshalMatch kvs ''query'' Query of
             Inl err \<Rightarrow> Inl err
           | Inr query \<Rightarrow>
          (case unmarshalJWTClaim kvs of
             Inl err \<Rightarrow> Inl err
           | Inr claim \<Rightarrow>
               (let present = filter (\<lambda>m. m \<noteq> None) [header, query, claim]
                in (case present of
                      [Some m] \<Rightarrow> Inr \<lparr>p_Match = m, p_Transformation = transformation\<rparr>
                    | _ \<Rightarrow>
                        Inl (Message
                          (''precisely one header, query or jwt_claim should be set, got ''
                             @ digit (length present)))))))))
      | _ \<Rightarrow> Inl WrongKind)"

fun unmarshalParameters :: "yaml list \<Rightarrow> unmarshal_error + APIOperationParameter list" where
  "unmarshalParameters [] = Inr []"
| "unmarshalParameters (y # ys) =
     (case unmarshalParameter y of
        Inl err \<Rightarrow> Inl err
      | Inr p \<Rightarrow>
          (case unmarshalParameters ys of
             Inl err \<Rightarrow> Inl err
           | Inr ps \<Rightarrow> Inr (p # ps)))"

text \<open>
  Modelled from the spec: encoding a JWT requirement, whose code is missing. It
  rejects a JWKS source that is not the remote one, and a parameter binding that
  the encoding of bindings rejects. An empty list of audiences is left out.
\<close>

definition marshalJWTAuthentication :: "JWTAuthentication \<Rightarrow> marshal_error + yaml" where
  "marshalJWTAuthentication j =
     (case jwt_JWKSSource j of
        OtherJWKSSource \<Rightarrow> Inl UnsupportedJWKSSource
      | RemoteJWKS url cacheDuration \<Rightarrow>
          (case marshalParameters (jwt_In j) of
             Inl err \<Rightarrow> Inl err
           | Inr ps \<Rightarrow>
               Inr (YMap ([(''name'', YString (jwt_Name j)), (''issuer'', YString (jwt_Issuer j))]
                          @ (if jwt_Audiences j = [] then []
                             else [(''audiences'', YSeq (map YString (jwt_Audiences j)))])
                          @ [(''in'', YSeq ps),
                             (''remote_jwks'',
                              YMap [(''url'', YString url),
                                    (''cache_duration'', YDuration cacheDuration)])]))))"

text \<open>
  Modelled from the spec: decoding a JWT requirement, whose code is missing. A
  JWT requirement without the key of its JWKS source is refused, with the
  message that \<^verbatim>\<open>TestUnmarshalJWTAuthenticationError\<close> expects.
\<close>

definition unmarshalJWKSSource :: "(string \<times> yaml) list \<Rightarrow> unmarshal_error + JWKSSource" where
  "unmarshalJWKSSource kvs =
     (case map_of kvs ''remote_jwks'' of
        None \<Rightarrow> Inl (Message ''remote jwks not found'')
      | Some (YMap r) \<Rightarrow>
          (case getString r ''url'' of
             Inl err \<Rightarrow> Inl err
           | Inr url \<Rightarrow>
               (case getDuration r ''cache_duration'' of
                  Inl err \<Rightarrow> Inl err
                | Inr cacheDuration \<Rightarrow> Inr (RemoteJWKS url cacheDuration)))
      | Some _ \<Rightarrow> Inl WrongKind)"

definition unmarshalJWTAuthentication :: "yaml \<Rightarrow> unmarshal_error + JWTAuthentication" where
  "unmarshalJWTAuthentication y =
     (case y of
        YMap kvs \<Rightarrow>
          (case getString kvs ''name'' of
             Inl err \<Rightarrow> Inl err
           | Inr name \<Rightarrow>
          (case getString kvs ''issuer'' of
             Inl err \<Rightarrow> Inl err
           | Inr issuer \<Rightarrow>
          (case (case map_of kvs ''audiences'' of
                   None \<Rightarrow> Inr []
                 | Some (YSeq ys) \<Rightarrow> getStrings ys
                 | Some _ \<Rightarrow> Inl WrongKind) of
             Inl err \<Rightarrow> Inl err
           | Inr audiences \<Rightarrow>
          (case (case map_of kvs ''in'' of
                   None \<Rightarrow> Inr []
                 | Some (YSeq ys) \<Rightarrow> unmarshalParameters ys
                 | Some _ \<Rightarrow> Inl WrongKind) of
             Inl err \<Rightarrow> Inl err
           | Inr parameters \<Rightarrow>
          (case unmarshalJWKSSource kvs of
             Inl err \<Rightarrow> Inl err
           | Inr source \<Rightarrow>
               Inr \<lparr>jwt_Name = name, jwt_Issuer = issuer, jwt_JWKSSource = source,
                    jwt_Audiences = audiences, jwt_In = parameters\<rparr>)))))
      | _ \<Rightarrow> Inl WrongKind)"

text \<open>
  Modelled from the spec: encoding a requirement, whose code is missing. Each of
  the three variants is written under its own key, \<^verbatim>\<open>jwt\<close>, \<^verbatim>\<open>any\<close> or \<^verbatim>\<open>all\<close>,
  the nested requirements encoded in their order; any other variant is rejected.
  The key \<^verbatim>\<open>disabled\<close> is written when the flag is set.
\<close>

definition marshalDisabled :: "bool \<Rightarrow> (string \<times> yaml) list" where
  "marshalDisabled d = (if d then [(''disabled'', YBool True)] else [])"

fun MarshalYAML :: "AuthenticationRequirement \<Rightarrow> marshal_error + yaml"
  and MarshalYAML_children :: "AuthenticationRequirement list \<Rightarrow> marshal_error + yaml list" where
  "MarshalYAML (AuthenticationRequirement d (JWTAuthentication j)) =
     (case marshalJWTAuthentication j of
        Inl err \<Rightarrow> Inl err
      | Inr y \<Rightarrow> Inr (YMap (marshalDisabled d @ [(''jwt'', y)])))"
| "MarshalYAML (AuthenticationRequirement d (AnyAuthenticationRequirements rs)) =
     (case MarshalYAML_children rs of
        Inl err \<Rightarrow> Inl err
      | Inr ys \<Rightarrow> Inr (YMap (marshalDisabled d @ [(''any'', YSeq ys)])))"
| "MarshalYAML (AuthenticationRequirement d (AllAuthenticationRequirements rs)) =
     (case MarshalYAML_children rs of
        Inl err \<Rightarrow> Inl err
      | Inr ys \<Rightarrow> Inr (YMap (marshalDisabled d @ [(''all'', YSeq ys)])))"
| "MarshalYAML (AuthenticationRequirement d NilRequirements) = Inl UnsupportedRequirements"
| "MarshalYAML (AuthenticationRequirement d OtherRequirements) = Inl UnsupportedRequirements"
| "MarshalYAML_children [] = Inr []"
| "MarshalYAML_children (r # rs) =
     (case MarshalYAML r of
        Inl err \<Rightarrow> Inl err
      | Inr y \<Rightarrow>
          (case MarshalYAML_children rs of
             Inl err \<Rightarrow> Inl err
           | Inr ys \<Rightarrow> Inr (y # ys)))"

text \<open>
  Modelled from the spec: the decoded record of a requirement, its nested
  requirements decoded already, with each of the three keys set or not.
\<close>

record authenticationRequirementWrapper =
  w_Disabled :: bool
  w_JWT :: "JWTAuthentication option"
  w_Any :: "AuthenticationRequirement list option"
  w_All :: "AuthenticationRequirement list option"

text \<open>
  Modelled from the spec: the number of the three keys that the decoded record
  carries.
\<close>

definition keysSet :: "authenticationRequirementWrapper \<Rightarrow> nat" where
  "keysSet w =
     (if w_JWT w \<noteq> None then 1 else 0) + (if w_Any w \<noteq> None then 1 else 0)
       + (if w_All w \<noteq> None then 1 else 0)"

text \<open>
  Modelled from the spec: the requirement of a decoded record. Unless the record
  is disabled, precisely one of the three keys must be set. The specification
  does not say which alternative a disabled record with several keys keeps; the
  model takes them in the order \<^verbatim>\<open>jwt\<close>, \<^verbatim>\<open>any\<close>, \<^verbatim>\<open>all\<close>, a later one replacing
  an earlier one, and leaves the requirement unset when there is none.
\<close>

definition requirementOfWrapper ::
  "authenticationRequirementWrapper \<Rightarrow> unmarshal_error + AuthenticationRequirement" where
  "requirementOfWrapper w =
     (let r0 = NilRequirements;
          r1 = (case w_JWT w of None \<Rightarrow> r0 | Some j \<Rightarrow> JWTAuthentication j);
          r2 = (case w_Any w of None \<Rightarrow> r1 | Some rs \<Rightarrow> AnyAuthenticationRequirements rs);
          r3 = (case w_All w of None \<Rightarrow> r2 | Some rs \<Rightarrow> AllAuthenticationRequirements rs)
      in if \<not> w_Disabled w \<and> keysSet w \<noteq> 1
         then Inl (Message ''precisely one of jwt, any or all should be set'')
         else Inr (AuthenticationRequirement (w_Disabled w) r3))"

text \<open>
  For the termination of decoding: a value found under a key of a mapping is
  smaller than the mapping.
\<close>

lemma size_map_of:
  "(case map_of kvs key of None \<Rightarrow> 0 | Some y \<Rightarrow> 3 * size y + 1)
     < 3 + 3 * size_list (size_prod (\<lambda>x. 0) size) kvs"
  by (induction kvs) (auto split: option.splits)

text \<open>
  Modelled from the spec: decoding a requirement, whose code is missing.
  \<open>decodeWrapper\<close> reads the decoded record off a mapping: the flag and the
  values under the keys that are present, each decoded, the first error among
  them ending the decoding (\<open>decodeRequirements\<close> decodes the sequence under
  \<^verbatim>\<open>any\<close> or \<^verbatim>\<open>all\<close>). \<open>UnmarshalYAML\<close> then checks the decoded record.
\<close>

function (sequential) decodeWrapper :: "yaml \<Rightarrow> unmarshal_error + authenticationRequirementWrapper"
  and decodeRequirements :: "yaml option \<Rightarrow> unmarshal_error + AuthenticationRequirement list option"
  and UnmarshalYAML :: "yaml \<Rightarrow> unmarshal_error + AuthenticationRequirement"
  and UnmarshalYAML_children :: "yaml list \<Rightarrow> unmarshal_error + AuthenticationRequirement list" where
  "decodeWrapper (YMap kvs) =
     (case getBool kvs ''disabled'' of
        Inl err \<Rightarrow> Inl err
      | Inr d \<Rightarrow>
     (case (case map_of kvs ''jwt'' of
              None \<Rightarrow> Inr None
            | Some y \<Rightarrow> (case unmarshalJWTAuthentication y of
                           Inl err \<Rightarrow> Inl err | Inr j \<Rightarrow> Inr (Some j))) of
        Inl err \<Rightarrow> Inl err
      | Inr wj \<Rightarrow>
     (case decodeRequirements (map_of kvs ''any'') of
        Inl err \<Rightarrow> Inl err
      | Inr wany \<Rightarrow>
     (case decodeRequirements (map_of kvs ''all'') of
        Inl err \<Rightarrow> Inl err
      | Inr wall \<Rightarrow>
          Inr \<lparr>w_Disabled = d, w_JWT = wj, w_Any = wany, w_All = wall\<rparr>))))"
| "decodeWrapper y = Inl WrongKind"
| "decodeRequirements None = Inr None"
| "decodeRequirements (Some (YSeq ys)) =
     (case UnmarshalYAML_children ys of
        Inl err \<Rightarrow> Inl err
      | Inr rs \<Rightarrow> Inr (Some rs))"
| "decodeRequirements (Some y) = Inl WrongKind"
| "UnmarshalYAML y =
     (case decodeWrapper y of
        Inl err \<Rightarrow> Inl err
      | Inr w \<Rightarrow> requirementOfWrapper w)"
| "UnmarshalYAML_children [] = Inr []"
| "UnmarshalYAML_children (y # ys) =
     (case UnmarshalYAML y of
        Inl err \<Rightarrow> Inl err
      | Inr r \<Rightarrow>
          (case UnmarshalYAML_children ys of
             Inl err \<Rightarrow> Inl err
           | Inr rs \<Rightarrow> Inr (r # rs)))"
  by pat_completeness auto

termination
  by (relation "measure (\<lambda>x. case x of
      Inl (Inl y) \<Rightarrow> 3 * size y
    | Inl (Inr None) \<Rightarrow> 0
    | Inl (Inr (Some y)) \<Rightarrow> 3 * size y + 1
    | Inr (Inl y) \<Rightarrow> 3 * size y + 1
    | Inr (Inr ys) \<Rightarrow> 3 * size_list size ys)") (simp_all add: size_map_of)

text \<open>
  The words of the specification: a valid requirement. Every node holds one of
  the three variants; every JWT requirement has the remote JWKS source; every
  parameter binding has a match of one of the three kinds, with a target that is
  not empty (an invariant of the data model). Encoding rejects the other
  variants, sources and matches.
\<close>

definition validParameter :: "APIOperationParameter \<Rightarrow> bool" where
  "validParameter p =
     (case p_Match p of
        Header h \<Rightarrow> h \<noteq> []
      | Query q \<Rightarrow> q \<noteq> []
      | JWTClaim requirement name \<Rightarrow> name \<noteq> []
      | OtherParamMatch \<Rightarrow> False)"

definition validJWTAuthentication :: "JWTAuthentication \<Rightarrow> bool" where
  "validJWTAuthentication j =
     ((case jwt_JWKSSource j of RemoteJWKS url cacheDuration \<Rightarrow> True | OtherJWKSSource \<Rightarrow> False)
      \<and> list_all validParameter (jwt_In j))"

fun validRequirement :: "AuthenticationRequirement \<Rightarrow> bool"
  and validRequirement_children :: "AuthenticationRequirement list \<Rightarrow> bool" where
  "validRequirement (AuthenticationRequirement d (JWTAuthentication j)) = validJWTAuthentication j"
| "validRequirement (AuthenticationRequirement d (AnyAuthenticationRequirements rs)) =
     validRequirement_children rs"
| "validRequirement (AuthenticationRequirement d (AllAuthenticationRequirements rs)) =
     validRequirement_children rs"
| "validRequirement (AuthenticationRequirement d NilRequirements) = False"
| "validRequirement (AuthenticationRequirement d OtherRequirements) = False"
| "validRequirement_children [] = True"
| "validRequirement_children (r # rs) = (validRequirement r \<and> validRequirement_children rs)"

text \<open>
  For stating the check: the number of the keys \<^verbatim>\<open>jwt\<close>, \<^verbatim>\<open>any\<close>, \<^verbatim>\<open>all\<close>
  present in a mapping, and the same mapping with \<^verbatim>\<open>disabled: true\<close>.
\<close>

definition withDisabled :: "(string \<times> yaml) list \<Rightarrow> (string \<times> yaml) list" where
  "withDisabled kvs = (''disabled'', YBool True) # filter (\<lambda>kv. fst kv \<noteq> ''disabled'') kvs"

definition keysPresent :: "(string \<times> yaml) list \<Rightarrow> nat" where
  "keysPresent kvs = length (filter (\<lambda>key. map_of kvs key \<noteq> None) [''jwt'', ''any'', ''all''])"

section \<open>What a successful construction has done\<close>

text \<open>
  Notions for stating the effect of \<^verbatim>\<open>NewEnvironmentSpecExt\<close>. \<open>compiled Parse s\<close>
  is what \<^verbatim>\<open>parseTemplate\<close> returns for \<open>s\<close> when it returns no error; \<open>parses\<close>
  says that no string of a list makes \<open>Parse\<close> fail; \<open>cached Parse ss m\<close> is the
  cache \<open>m\<close> after the strings \<open>ss\<close> have been parsed.
\<close>

definition compiled :: "(string \<Rightarrow> 'e + 't) \<Rightarrow> string \<Rightarrow> 't option" where
  "compiled Parse s =
     (if s = [] then None else (case Parse s of Inl err \<Rightarrow> None | Inr t \<Rightarrow> Some t))"

definition parses :: "(string \<Rightarrow> 'e + 't) \<Rightarrow> string list \<Rightarrow> bool" where
  "parses Parse ss = list_all (\<lambda>s. s = [] \<or> compiled Parse s \<noteq> None) ss"

definition cached :: "(string \<Rightarrow> 'e + 't) \<Rightarrow> string list \<Rightarrow> (string \<rightharpoonup> 't) \<Rightarrow> (string \<rightharpoonup> 't)" where
  "cached Parse ss m = (\<lambda>s. if s \<noteq> [] \<and> s \<in> set ss then compiled Parse s else m s)"

text \<open>
  The strings that the code hands to \<^verbatim>\<open>parseTemplate\<close>, in the order of the
  calls: for an operation, for an API, and for the whole specification (the
  bindings of the flattened JWT requirements come last).
\<close>

definition parsedForOperation :: "APIOperation \<Rightarrow> string list" where
  "parsedForOperation op =
     map m_PathTemplate (op_HTTPMatches op)
     @ parameterTemplates (ca_In (op_ConsumerAuthorization op))
     @ transformTemplates (op_HTTPRequestTransforms op)"

definition parsedForAPI :: "APISpec \<Rightarrow> string list" where
  "parsedForAPI api =
     parameterTemplates (ca_In (api_ConsumerAuthorization api))
     @ transformTemplates (api_HTTPRequestTransforms api)
     @ concat (map parsedForOperation (api_Operations api))"

definition parsedForSpec :: "EnvironmentSpec \<Rightarrow> string list" where
  "parsedForSpec spec =
     concat (map parsedForAPI (es_APIs spec))
     @ jwtTemplates (JWTAuthentications_apis [] (es_APIs spec))"

text \<open>The insertions into the operation tree made for one operation.\<close>

definition operationEntries ::
  "(string \<Rightarrow> 'e + 't) \<Rightarrow> string \<Rightarrow> APISpec \<Rightarrow> APIOperation
    \<Rightarrow> (string list \<times> 't OpTemplateMatch) list" where
  "operationEntries Parse anyMethod api op =
     (if op_HTTPMatches op = []
      then [([api_ID api, wildcard, wildcard], \<lparr>operation = op, template = None\<rparr>)]
      else map (\<lambda>m. (api_ID api # (if m_Method m = anyMethod then wildcard else m_Method m)
                         # Split (m_PathTemplate m) CHR ''/'',
                      \<lparr>operation = op, template = compiled Parse (m_PathTemplate m)\<rparr>))
             (op_HTTPMatches op))"

text \<open>
  The words of the specification for the flag: the literal origins contain the
  wildcard origin, or there is a regular expression, or there is more than one
  literal origin.
\<close>

definition mustVaryOf :: "CorsPolicy \<Rightarrow> bool" where
  "mustVaryOf c =
     (wildcard \<in> set (cors_AllowOrigins c) \<or> cors_AllowOriginsRegexes c \<noteq> []
      \<or> length (cors_AllowOrigins c) > 1)"

section \<open>Example values\<close>

text \<open>
  Values of the tests, for the concrete instances below: the requirement
  \<^verbatim>\<open>nested jwt\<close> of \<^verbatim>\<open>TestAuthorizationRequirementIsEmpty\<close> and the requirement
  \<^verbatim>\<open>valid any enclosing all and jwt\<close> of
  \<^verbatim>\<open>TestMarshalAndUnmarshalAuthenticationRequirement\<close>.
\<close>

definition zeroStringTransformation :: StringTransformation where
  "zeroStringTransformation = \<lparr>st_Template = [], st_Substitution = []\<rparr>"

definition zeroJWTAuthentication :: JWTAuthentication where
  "zeroJWTAuthentication =
     \<lparr>jwt_Name = [], jwt_Issuer = [], jwt_JWKSSource = OtherJWKSSource, jwt_Audiences = [],
      jwt_In = []\<rparr>"

definition nestedJWT :: AuthenticationRequirement where
  "nestedJWT =
     AuthenticationRequirement False (AllAuthenticationRequirements
       [AuthenticationRequirement False (AnyAuthenticationRequirements
          [AuthenticationRequirement False NilRequirements,
           AuthenticationRequirement False (JWTAuthentication zeroJWTAuthentication)])])"

definition testJWT :: "string \<Rightarrow> string \<Rightarrow> ParamMatch \<Rightarrow> string \<Rightarrow> int \<Rightarrow> JWTAuthentication" where
  "testJWT name issuer match url cacheDuration =
     \<lparr>jwt_Name = name, jwt_Issuer = issuer, jwt_JWKSSource = RemoteJWKS url cacheDuration,
      jwt_Audiences = [],
      jwt_In = [\<lparr>p_Match = match, p_Transformation = zeroStringTransformation\<rparr>]\<rparr>"

definition hour :: int where
  "hour = 3600000000000"

definition anyEnclosingAllAndJWT :: AuthenticationRequirement where
  "anyEnclosingAllAndJWT =
     AuthenticationRequirement True (AnyAuthenticationRequirements
       [AuthenticationRequirement False (AllAuthenticationRequirements
          [AuthenticationRequirement True
             (JWTAuthentication (testJWT ''foo'' ''bar'' (Header ''header'') ''url1'' hour)),
           AuthenticationRequirement False
             (JWTAuthentication (testJWT ''bar'' ''foo'' (Query ''query'') ''url2'' hour))]),
        AuthenticationRequirement False
          (JWTAuthentication (testJWT ''bac'' ''foo'' (Query ''query'') ''url3'' (2 * hour)))])"

text \<open>
  The document of the test \<^verbatim>\<open>all and any coexist\<close> of
  \<^verbatim>\<open>TestUnmarshalAuthenticationRequirementError\<close>, as the keys and values of its
  mapping; with \<^verbatim>\<open>disabled: true\<close> in front it is the document of
  \<^verbatim>\<open>disabled:true should eliminate validation err\<close>.
\<close>

definition jwtDocument :: yaml where
  "jwtDocument =
     YMap [(''name'', YString ''foo''), (''issuer'', YString ''bar''),
           (''in'', YSeq [YMap [(''header'', YString ''header'')]]),
           (''remote_jwks'',
            YMap [(''url'', YString ''url1''), (''cache_duration'', YDuration hour)])]"

definition allAndAnyCoexist :: "(string \<times> yaml) list" where
  "allAndAnyCoexist =
     [(''all'', YSeq [YMap [(''jwt'', jwtDocument)]]),
      (''any'', YSeq [YMap [(''jwt'', jwtDocument)]])]"

text \<open>
  Stand-ins for the two library functions, for the concrete instances: a parser
  that refuses a template whose braces do not pair up, and a compiler of
  regular expressions that panics on \<^verbatim>\<open>*\<close>, a pattern Go refuses.
\<close>

definition exampleParse :: "string \<Rightarrow> string + string" where
  "exampleParse s =
     (if count_list s CHR ''{'' = count_list s CHR ''}'' then Inr s else Inl ''unbalanced braces'')"

definition exampleMustCompile :: "string \<Rightarrow> string option" where
  "exampleMustCompile r = (if r = ''*'' then None else Some r)"

text \<open>The zero values of two structs, and the parts of the example specification.\<close>

definition zeroConsumerAuthorization :: ConsumerAuthorization where
  "zeroConsumerAuthorization = \<lparr>ca_Disabled = False, ca_In = []\<rparr>"

definition zeroHTTPRequestTransforms :: HTTPRequestTransforms where
  "zeroHTTPRequestTransforms =
     \<lparr>t_HeaderTransforms = \<lparr>nvt_Add = [], nvt_Remove = []\<rparr>,
      t_QueryTransforms = \<lparr>nvt_Add = [], nvt_Remove = []\<rparr>,
      t_PathTransform = []\<rparr>"

definition jwtOfOperation :: JWTAuthentication where
  "jwtOfOperation =
     \<lparr>jwt_Name = ''foo'', jwt_Issuer = ''issuer'', jwt_JWKSSource = RemoteJWKS ''url'' hour,
      jwt_Audiences = [''foo'', ''bac''],
      jwt_In = [\<lparr>p_Match = Header ''jwt'',
                 p_Transformation = \<lparr>st_Template = ''{identity}'',
                                     st_Substitution = ''{identity}''\<rparr>\<rparr>]\<rparr>"

definition jwtOfAPI :: JWTAuthentication where
  "jwtOfAPI =
     \<lparr>jwt_Name = ''foo'', jwt_Issuer = ''issuer-0'', jwt_JWKSSource = RemoteJWKS ''url'' hour,
      jwt_Audiences = [],
      jwt_In = [\<lparr>p_Match = Header ''jwt'', p_Transformation = zeroStringTransformation\<rparr>,
                \<lparr>p_Match = Header ''x-custom-auth-token'',
                 p_Transformation = zeroStringTransformation\<rparr>]\<rparr>"

definition operationWithMatches :: APIOperation where
  "operationWithMatches =
     \<lparr>op_Name = ''op-1'',
      op_HTTPMatches = [\<lparr>m_PathTemplate = ''/petstore'', m_Method = ''GET''\<rparr>,
                        \<lparr>m_PathTemplate = ''/pets/{id}'', m_Method = ''ANY''\<rparr>],
      op_Authentication = AuthenticationRequirement False (JWTAuthentication jwtOfOperation),
      op_ConsumerAuthorization = zeroConsumerAuthorization,
      op_HTTPRequestTransforms =
        zeroHTTPRequestTransforms\<lparr>t_PathTransform := ''/target_prefix/{path}''\<rparr>,
      op_jwtAuthentications = [jwtOfOperation]\<rparr>"

definition operationWithoutMatches :: APIOperation where
  "operationWithoutMatches =
     \<lparr>op_Name = ''empty'', op_HTTPMatches = [],
      op_Authentication = AuthenticationRequirement False NilRequirements,
      op_ConsumerAuthorization = zeroConsumerAuthorization,
      op_HTTPRequestTransforms = zeroHTTPRequestTransforms,
      op_jwtAuthentications = []\<rparr>"

text \<open>
  A specification in the state validation leaves it in, after the one of
  \<^verbatim>\<open>createGoodEnvSpec\<close>: an API without a requirement of its own, whose first
  operation has two HTTP matches and a JWT requirement and whose second operation
  has no HTTP match; then an API with a JWT requirement and no operation.
\<close>

definition exampleSpec :: EnvironmentSpec where
  "exampleSpec =
     \<lparr>es_ID = ''good-env-config'',
      es_APIs =
        [\<lparr>api_ID = ''apispec1'', api_BasePath = ''/v1'',
          api_Authentication = AuthenticationRequirement False NilRequirements,
          api_ConsumerAuthorization =
            \<lparr>ca_Disabled = False,
             ca_In = [\<lparr>p_Match = Header ''authorization'',
                       p_Transformation = \<lparr>st_Template = ''Bearer {token}'',
                                           st_Substitution = ''{token}''\<rparr>\<rparr>]\<rparr>,
          api_Operations = [operationWithMatches, operationWithoutMatches],
          api_HTTPRequestTransforms =
            zeroHTTPRequestTransforms\<lparr>t_HeaderTransforms :=
              \<lparr>nvt_Add = [\<lparr>anv_Name = ''x-apigee-target'', anv_Value = ''target'',
                            anv_Overwrite = False\<rparr>],
               nvt_Remove = []\<rparr>\<rparr>,
          api_Cors = \<lparr>cors_AllowOrigins = [''*''], cors_AllowOriginsRegexes = []\<rparr>,
          api_jwtAuthentications = []\<rparr>,
         \<lparr>api_ID = ''apispec2'', api_BasePath = ''/v2'',
          api_Authentication = AuthenticationRequirement False (JWTAuthentication jwtOfAPI),
          api_ConsumerAuthorization = zeroConsumerAuthorization,
          api_Operations = [],
          api_HTTPRequestTransforms = zeroHTTPRequestTransforms,
          api_Cors = \<lparr>cors_AllowOrigins = [''https://example.com''],
                      cors_AllowOriginsRegexes = []\<rparr>,
          api_jwtAuthentications = [jwtOfAPI]\<rparr>]\<rparr>"

text \<open>
  A specification that validation has not run on: its API has a JWT requirement
  whose binding has a template, and the flattened list is still empty. With it,
  the object that the construction returns for it.
\<close>

definition unvalidatedAPI :: APISpec where
  "unvalidatedAPI =
     \<lparr>api_ID = ''api'', api_BasePath = ''/v1'',
      api_Authentication = AuthenticationRequirement False (JWTAuthentication jwtOfOperation),
      api_ConsumerAuthorization = zeroConsumerAuthorization,
      api_Operations = [],
      api_HTTPRequestTransforms = zeroHTTPRequestTransforms,
      api_Cors = \<lparr>cors_AllowOrigins = [], cors_AllowOriginsRegexes = []\<rparr>,
      api_jwtAuthentications = []\<rparr>"

definition unvalidatedSpec :: EnvironmentSpec where
  "unvalidatedSpec = \<lparr>es_ID = ''spec'', es_APIs = [unvalidatedAPI]\<rparr>"

definition unvalidatedExt :: "(string, string) EnvironmentSpecExt" where
  "unvalidatedExt =
     \<lparr>EnvironmentSpec = unvalidatedSpec,
      apiPathTree = [([''/'', [], ''v1''], unvalidatedAPI)],
      opPathTree = [],
      compiledTemplates = Map.empty,
      corsVary = [''api'' \<mapsto> False],
      corsAllowedOrigins = [''api'' \<mapsto> Map.empty],
      compiledRegExps = Map.empty\<rparr>"

section \<open>Properties of emptiness\<close>

lemma isEmpty_range_iff: "isEmpty_range rs \<longleftrightarrow> (\<forall>r \<in> set rs. isEmpty r)"
  by (induction rs) auto

lemma containsJWT_some_iff: "containsJWT_some rs \<longleftrightarrow> (\<exists>r \<in> set rs. containsJWT r)"
  by (induction rs) auto

lemma isEmpty_iff_no_JWT:
  "isEmpty a \<longleftrightarrow> \<not> containsJWT a"
  "isEmpty_range rs \<longleftrightarrow> \<not> containsJWT_some rs"
  by (induction a and rs rule: isEmpty_isEmpty_range.induct) auto

text \<open>
  C3: \<^verbatim>\<open>IsEmpty()\<close> of a requirement is true if and only if the requirement is
  not disabled and its recursive content is empty; in particular a disabled
  requirement is never empty, whatever its content.
\<close>

theorem IsEmpty_not_disabled_and_empty:
  "(IsEmpty a \<longleftrightarrow> \<not> Disabled a \<and> isEmpty a) \<and> (Disabled a \<longrightarrow> \<not> IsEmpty a)"
  by (simp add: IsEmpty_def)

theorem IsEmpty_not_disabled_and_empty_witness:
  "Disabled (AuthenticationRequirement True (AnyAuthenticationRequirements []))
   \<and> isEmpty (AuthenticationRequirement True (AnyAuthenticationRequirements []))
   \<and> \<not> IsEmpty (AuthenticationRequirement True (AnyAuthenticationRequirements []))"
  using IsEmpty_not_disabled_and_empty
    [of "AuthenticationRequirement True (AnyAuthenticationRequirements [])"]
  by simp

text \<open>
  C4: the recursive helper \<^verbatim>\<open>isEmpty\<close> is true of an any-of and of an all-of node
  if and only if every child is empty, and false of a JWT leaf; so a tree that
  contains a JWT leaf at any depth is not empty, and an any-of or all-of without
  children is empty.
\<close>

theorem isEmpty_children:
  "(isEmpty (AuthenticationRequirement d (AnyAuthenticationRequirements rs))
      \<longleftrightarrow> (\<forall>r \<in> set rs. isEmpty r))
   \<and> (isEmpty (AuthenticationRequirement d (AllAuthenticationRequirements rs))
      \<longleftrightarrow> (\<forall>r \<in> set rs. isEmpty r))
   \<and> \<not> isEmpty (AuthenticationRequirement d (JWTAuthentication j))
   \<and> (containsJWT a \<longrightarrow> \<not> isEmpty a)
   \<and> isEmpty (AuthenticationRequirement d (AnyAuthenticationRequirements []))
   \<and> isEmpty (AuthenticationRequirement d (AllAuthenticationRequirements []))"
  using isEmpty_iff_no_JWT(1) [of a] by (simp add: isEmpty_range_iff)

theorem isEmpty_children_witness:
  "containsJWT nestedJWT \<and> \<not> isEmpty nestedJWT
   \<and> isEmpty (AuthenticationRequirement False (AnyAuthenticationRequirements
        [AuthenticationRequirement False (AllAuthenticationRequirements
           [AuthenticationRequirement False (AnyAuthenticationRequirements [])])]))"
proof -
  have leaf: "containsJWT nestedJWT"
    by (simp add: nestedJWT_def)
  have inner: "isEmpty (AuthenticationRequirement False (AllAuthenticationRequirements
      [AuthenticationRequirement False (AnyAuthenticationRequirements [])]))"
    using isEmpty_children [of False "[AuthenticationRequirement False (AnyAuthenticationRequirements [])]"]
    by simp
  show ?thesis
    using leaf inner
      isEmpty_children [of False
        "[AuthenticationRequirement False (AllAuthenticationRequirements
            [AuthenticationRequirement False (AnyAuthenticationRequirements [])])]"
        zeroJWTAuthentication nestedJWT]
    by simp
qed

text \<open>
  C9: \<^verbatim>\<open>isEmpty()\<close> of a consumer authorization is true if and only if it is not
  disabled and has no parameter binding; a disabled one is never empty.
\<close>

theorem ConsumerAuthorization_isEmpty_iff:
  "(ConsumerAuthorization_isEmpty c \<longleftrightarrow> \<not> ca_Disabled c \<and> ca_In c = [])
   \<and> (ca_Disabled c \<longrightarrow> \<not> ConsumerAuthorization_isEmpty c)"
  by (simp add: ConsumerAuthorization_isEmpty_def)

theorem ConsumerAuthorization_isEmpty_iff_witness:
  "ca_Disabled \<lparr>ca_Disabled = True, ca_In = []\<rparr>
   \<and> \<not> ConsumerAuthorization_isEmpty \<lparr>ca_Disabled = True, ca_In = []\<rparr>
   \<and> ConsumerAuthorization_isEmpty \<lparr>ca_Disabled = False, ca_In = []\<rparr>"
  using ConsumerAuthorization_isEmpty_iff [of "\<lparr>ca_Disabled = True, ca_In = []\<rparr>"]
    ConsumerAuthorization_isEmpty_iff [of "\<lparr>ca_Disabled = False, ca_In = []\<rparr>"]
  by simp

text \<open>
  C10: for a requirement whose \<^verbatim>\<open>Requirements\<close> field holds none of the three
  known variants, the unset one included, the helper \<^verbatim>\<open>isEmpty\<close> returns true
  (the function is total: it has a value on every requirement), so \<^verbatim>\<open>IsEmpty()\<close>
  is true exactly when the requirement is not disabled.
\<close>

theorem isEmpty_unknown_variant:
  "\<not> knownVariant (Requirements a) \<Longrightarrow> isEmpty a \<and> (IsEmpty a \<longleftrightarrow> \<not> Disabled a)"
  by (cases a; cases "Requirements a") (simp_all add: IsEmpty_def)

theorem isEmpty_unknown_variant_witness:
  "\<not> knownVariant (Requirements (AuthenticationRequirement False NilRequirements))
   \<and> isEmpty (AuthenticationRequirement False NilRequirements)
   \<and> IsEmpty (AuthenticationRequirement False NilRequirements)
   \<and> isEmpty (AuthenticationRequirement True OtherRequirements)
   \<and> \<not> IsEmpty (AuthenticationRequirement True OtherRequirements)"
  using isEmpty_unknown_variant [of "AuthenticationRequirement False NilRequirements"]
    isEmpty_unknown_variant [of "AuthenticationRequirement True OtherRequirements"]
  by simp

section \<open>Properties of the serialization contract\<close>

lemmas codec_defs = getBool_def getString_def getDuration_def unmarshalJWTAuthentication_def
  unmarshalJWKSSource_def unmarshalParameter_def unmarshalTransformation_def unmarshalMatch_def
  unmarshalJWTClaim_def

lemma map_of_withDisabled:
  "map_of (withDisabled kvs) key = (if key = ''disabled'' then Some (YBool True) else map_of kvs key)"
  by (induction kvs) (auto simp: withDisabled_def)

lemma decodeWrapper_withDisabled:
  assumes "decodeWrapper (YMap kvs) = Inr w"
  shows "decodeWrapper (YMap (withDisabled kvs)) = Inr (w\<lparr>w_Disabled := True\<rparr>)"
  using assms
  by (auto simp: map_of_withDisabled getBool_def split: sum.splits)

lemma decodeRequirements_None:
  "decodeRequirements v = Inr r \<Longrightarrow> r = None \<longleftrightarrow> v = None"
  by (cases v rule: decodeRequirements.cases) (auto split: sum.splits)

lemma decodeWrapper_keys:
  assumes "decodeWrapper (YMap kvs) = Inr w"
  shows "keysSet w = keysPresent kvs"
proof -
  from assms obtain d wj wany wall where
    w: "w = \<lparr>w_Disabled = d, w_JWT = wj, w_Any = wany, w_All = wall\<rparr>" and
    j: "(case map_of kvs ''jwt'' of None \<Rightarrow> Inr None
         | Some y \<Rightarrow> (case unmarshalJWTAuthentication y of
                        Inl err \<Rightarrow> Inl err | Inr j \<Rightarrow> Inr (Some j))) = Inr wj" and
    any: "decodeRequirements (map_of kvs ''any'') = Inr wany" and
    all: "decodeRequirements (map_of kvs ''all'') = Inr wall"
    by (auto split: sum.splits)
  from j have "wj = None \<longleftrightarrow> map_of kvs ''jwt'' = None"
    by (auto split: option.splits sum.splits)
  with decodeRequirements_None [OF any] decodeRequirements_None [OF all]
  show ?thesis
    by (simp add: w keysSet_def keysPresent_def)
qed

text \<open>
  C2: when the values under the keys of a mapping decode, to the record \<open>w\<close>, and
  the record is not disabled, then with none or more than one of the keys
  \<^verbatim>\<open>jwt\<close>, \<^verbatim>\<open>any\<close>, \<^verbatim>\<open>all\<close> present decoding fails with the message
  \<^verbatim>\<open>precisely one of jwt, any or all should be set\<close>; a disabled record
  decodes without error, and so does the same mapping with \<^verbatim>\<open>disabled: true\<close>,
  the check being skipped.
\<close>

theorem UnmarshalYAML_precisely_one:
  assumes "decodeWrapper (YMap kvs) = Inr w"
  shows "keysSet w = keysPresent kvs
     \<and> (\<not> w_Disabled w \<and> keysPresent kvs \<noteq> 1 \<longrightarrow>
          UnmarshalYAML (YMap kvs)
            = Inl (Message ''precisely one of jwt, any or all should be set''))
     \<and> (w_Disabled w \<longrightarrow> (\<exists>a. UnmarshalYAML (YMap kvs) = Inr a \<and> Disabled a))
     \<and> (\<exists>a. UnmarshalYAML (YMap (withDisabled kvs)) = Inr a \<and> Disabled a)"
  using assms decodeWrapper_withDisabled [OF assms] decodeWrapper_keys [OF assms]
  by (simp add: requirementOfWrapper_def Let_def)

theorem UnmarshalYAML_precisely_one_witness:
  "keysPresent allAndAnyCoexist = 2
   \<and> UnmarshalYAML (YMap allAndAnyCoexist)
       = Inl (Message ''precisely one of jwt, any or all should be set'')
   \<and> (\<exists>a. UnmarshalYAML (YMap ((''disabled'', YBool True) # allAndAnyCoexist)) = Inr a
          \<and> Disabled a)"
proof -
  have "\<exists>w. decodeWrapper (YMap allAndAnyCoexist) = Inr w \<and> \<not> w_Disabled w"
    by (simp add: codec_defs requirementOfWrapper_def keysSet_def allAndAnyCoexist_def
        jwtDocument_def)
  then obtain w where
    w: "decodeWrapper (YMap allAndAnyCoexist) = Inr w" and enabled: "\<not> w_Disabled w"
    by blast
  have keys: "keysPresent allAndAnyCoexist = 2"
    by (simp add: keysPresent_def allAndAnyCoexist_def)
  have same: "withDisabled allAndAnyCoexist = (''disabled'', YBool True) # allAndAnyCoexist"
    by (simp add: withDisabled_def allAndAnyCoexist_def)
  from UnmarshalYAML_precisely_one [OF w] enabled keys show ?thesis
    unfolding same by simp
qed

lemma unmarshalTransformation_marshal:
  "key \<noteq> ''transformation'' \<Longrightarrow>
     unmarshalTransformation ((key, v) # marshalTransformation t) = Inr t"
  by (simp add: unmarshalTransformation_def marshalTransformation_def getString_def)

lemma map_of_marshalTransformation:
  "key \<noteq> ''transformation'' \<Longrightarrow> map_of (marshalTransformation t) key = None"
  by (simp add: marshalTransformation_def)

lemma unmarshal_marshal_parameter:
  "validParameter p \<Longrightarrow> \<exists>y. marshalParameter p = Inr y \<and> unmarshalParameter y = Inr p"
  by (cases "p_Match p")
    (auto simp: validParameter_def marshalParameter_def unmarshalParameter_def
      unmarshalTransformation_marshal map_of_marshalTransformation unmarshalMatch_def
      unmarshalJWTClaim_def getString_def)

lemma unmarshal_marshal_parameters:
  "list_all validParameter ps \<Longrightarrow>
     \<exists>ys. marshalParameters ps = Inr ys \<and> unmarshalParameters ys = Inr ps"
proof (induction ps)
  case Nil
  then show ?case by simp
next
  case (Cons p ps)
  then obtain y ys where "marshalParameter p = Inr y" "unmarshalParameter y = Inr p"
    "marshalParameters ps = Inr ys" "unmarshalParameters ys = Inr ps"
    using unmarshal_marshal_parameter [of p] by auto
  then show ?case by simp
qed

lemma getStrings_YString: "getStrings (map YString ss) = Inr ss"
  by (induction ss) simp_all

lemma unmarshal_marshal_JWT:
  assumes "validJWTAuthentication j"
  shows "\<exists>y. marshalJWTAuthentication j = Inr y \<and> unmarshalJWTAuthentication y = Inr j"
proof -
  from assms obtain url cacheDuration where
    source: "jwt_JWKSSource j = RemoteJWKS url cacheDuration"
    by (cases "jwt_JWKSSource j") (auto simp: validJWTAuthentication_def)
  from assms obtain ps where
    ps: "marshalParameters (jwt_In j) = Inr ps" "unmarshalParameters ps = Inr (jwt_In j)"
    using unmarshal_marshal_parameters [of "jwt_In j"] by (auto simp: validJWTAuthentication_def)
  show ?thesis
    using source ps
    by (simp add: marshalJWTAuthentication_def unmarshalJWTAuthentication_def getString_def
        getDuration_def unmarshalJWKSSource_def getStrings_YString)
qed

lemma unmarshal_marshal_both:
  "validRequirement a \<Longrightarrow> \<exists>y. MarshalYAML a = Inr y \<and> UnmarshalYAML y = Inr a"
  "validRequirement_children rs \<Longrightarrow>
     \<exists>ys. MarshalYAML_children rs = Inr ys \<and> UnmarshalYAML_children ys = Inr rs"
proof (induction a and rs rule: validRequirement_validRequirement_children.induct)
  case (1 d j)
  then obtain y where "marshalJWTAuthentication j = Inr y" "unmarshalJWTAuthentication y = Inr j"
    using unmarshal_marshal_JWT [of j] by auto
  then show ?case
    by (cases d) (simp_all add: marshalDisabled_def getBool_def requirementOfWrapper_def
        keysSet_def)
next
  case (2 d rs)
  then obtain ys where "MarshalYAML_children rs = Inr ys" "UnmarshalYAML_children ys = Inr rs"
    by auto
  then show ?case
    by (cases d) (simp_all add: marshalDisabled_def getBool_def requirementOfWrapper_def
        keysSet_def)
next
  case (3 d rs)
  then obtain ys where "MarshalYAML_children rs = Inr ys" "UnmarshalYAML_children ys = Inr rs"
    by auto
  then show ?case
    by (cases d) (simp_all add: marshalDisabled_def getBool_def requirementOfWrapper_def
        keysSet_def)
next
  case (7 r rs)
  then show ?case by auto
qed simp_all

lemma marshalParameter_unsupported:
  "marshalParameter \<lparr>p_Match = OtherParamMatch, p_Transformation = t\<rparr> = Inl UnsupportedMatchType"
  by (simp add: marshalParameter_def)

text \<open>
  C5: encoding a valid requirement, any-of and all-of nested to any depth over
  JWT leaves, and decoding the result gives the requirement back.
\<close>

theorem marshal_unmarshal_roundtrip:
  "validRequirement a \<Longrightarrow> \<exists>y. MarshalYAML a = Inr y \<and> UnmarshalYAML y = Inr a"
  by (rule unmarshal_marshal_both(1))

theorem marshal_unmarshal_roundtrip_witness:
  "validRequirement anyEnclosingAllAndJWT
   \<and> (\<exists>y. MarshalYAML anyEnclosingAllAndJWT = Inr y
          \<and> UnmarshalYAML y = Inr anyEnclosingAllAndJWT)"
proof -
  have v: "validRequirement anyEnclosingAllAndJWT"
    by (simp add: anyEnclosingAllAndJWT_def testJWT_def validJWTAuthentication_def
        validParameter_def)
  show ?thesis
    using v marshal_unmarshal_roundtrip [OF v] by simp
qed

section \<open>The effect of a successful construction\<close>

lemma cached_Nil [simp]: "cached Parse [] m = m"
  by (simp add: cached_def)

lemma cached_append: "cached Parse ys (cached Parse xs m) = cached Parse (xs @ ys) m"
  by (auto simp: cached_def fun_eq_iff)

lemma parses_Nil [simp]: "parses Parse []"
  by (simp add: parses_def)

lemma parses_Cons [simp]:
  "parses Parse (s # ss) \<longleftrightarrow> (s = [] \<or> compiled Parse s \<noteq> None) \<and> parses Parse ss"
  by (simp add: parses_def)

lemma parses_append [simp]: "parses Parse (xs @ ys) \<longleftrightarrow> parses Parse xs \<and> parses Parse ys"
  by (simp add: parses_def)

lemma parseTemplate_Inr:
  assumes "parseTemplate Parse e s = Inr (e', t)"
  shows "e' = e\<lparr>compiledTemplates := cached Parse [s] (compiledTemplates e)\<rparr>"
    and "parses Parse [s]" and "t = compiled Parse s"
  using assms
  by (auto simp: parseTemplate_def cached_def parses_def compiled_def fun_eq_iff
      split: if_splits sum.splits)

lemma parseAPIOperationParameter_Inr:
  assumes "parseAPIOperationParameter Parse e s = Inr e'"
  shows "e' = e\<lparr>compiledTemplates :=
            cached Parse [st_Template s, st_Substitution s] (compiledTemplates e)\<rparr>"
    and "parses Parse [st_Template s, st_Substitution s]"
proof -
  show "e' = e\<lparr>compiledTemplates :=
            cached Parse [st_Template s, st_Substitution s] (compiledTemplates e)\<rparr>"
  proof (cases "st_Template s = [] \<and> st_Substitution s = []")
    case True
    with assms show ?thesis
      by (simp add: parseAPIOperationParameter_def cached_def)
  next
    case False
    with assms obtain e1 t1 t2 where
      1: "parseTemplate Parse e (st_Template s) = Inr (e1, t1)" and
      2: "parseTemplate Parse e1 (st_Substitution s) = Inr (e', t2)"
      by (auto simp: parseAPIOperationParameter_def split: sum.splits prod.splits)
    show ?thesis
      using parseTemplate_Inr(1) [OF 1] parseTemplate_Inr(1) [OF 2]
      by (simp add: cached_append)
  qed
  show "parses Parse [st_Template s, st_Substitution s]"
  proof (cases "st_Template s = [] \<and> st_Substitution s = []")
    case True
    then show ?thesis by (simp add: parses_def)
  next
    case False
    with assms obtain e1 t1 t2 where
      1: "parseTemplate Parse e (st_Template s) = Inr (e1, t1)" and
      2: "parseTemplate Parse e1 (st_Substitution s) = Inr (e', t2)"
      by (auto simp: parseAPIOperationParameter_def split: sum.splits prod.splits)
    show ?thesis
      using parseTemplate_Inr(2) [OF 1] parseTemplate_Inr(2) [OF 2]
      by (simp add: parses_def)
  qed
qed

lemma parseParameters_Inr:
  "parseParameters Parse e ps = Inr e' \<Longrightarrow>
     e' = e\<lparr>compiledTemplates := cached Parse (parameterTemplates ps) (compiledTemplates e)\<rparr>
     \<and> parses Parse (parameterTemplates ps)"
proof (induction ps arbitrary: e)
  case Nil
  then show ?case by (simp add: parameterTemplates_def)
next
  case (Cons p ps)
  from Cons.prems obtain e1 where
    1: "parseAPIOperationParameter Parse e (p_Transformation p) = Inr e1" and
    2: "parseParameters Parse e1 ps = Inr e'"
    by (auto split: sum.splits)
  have split: "parameterTemplates (p # ps) =
      [st_Template (p_Transformation p), st_Substitution (p_Transformation p)]
        @ parameterTemplates ps"
    by (simp add: parameterTemplates_def)
  show ?case
    using parseAPIOperationParameter_Inr [OF 1] Cons.IH [OF 2]
    unfolding split by (simp add: cached_append)
qed

lemma parseAdds_Inr:
  "parseAdds Parse e as = Inr e' \<Longrightarrow>
     e' = e\<lparr>compiledTemplates := cached Parse (map anv_Value as) (compiledTemplates e)\<rparr>
     \<and> parses Parse (map anv_Value as)"
proof (induction as arbitrary: e)
  case Nil
  then show ?case by simp
next
  case (Cons a as)
  from Cons.prems obtain e1 t where
    1: "parseTemplate Parse e (anv_Value a) = Inr (e1, t)" and
    2: "parseAdds Parse e1 as = Inr e'"
    by (auto split: sum.splits)
  have split: "map anv_Value (a # as) = [anv_Value a] @ map anv_Value as"
    by simp
  show ?case
    using parseTemplate_Inr(1,2) [OF 1] Cons.IH [OF 2]
    unfolding split by (simp add: cached_append)
qed

lemma parseHTTPRequestTransforms_Inr:
  assumes "parseHTTPRequestTransforms Parse e t = Inr e'"
  shows "e' = e\<lparr>compiledTemplates := cached Parse (transformTemplates t) (compiledTemplates e)\<rparr>
     \<and> parses Parse (transformTemplates t)"
proof -
  from assms obtain e1 t1 e2 where
    1: "parseTemplate Parse e (t_PathTransform t) = Inr (e1, t1)" and
    2: "parseAdds Parse e1 (nvt_Add (t_HeaderTransforms t)) = Inr e2" and
    3: "parseAdds Parse e2 (nvt_Add (t_QueryTransforms t)) = Inr e'"
    by (auto simp: parseHTTPRequestTransforms_def split: sum.splits)
  have split: "transformTemplates t =
      [t_PathTransform t] @ map anv_Value (nvt_Add (t_HeaderTransforms t))
        @ map anv_Value (nvt_Add (t_QueryTransforms t))"
    by (simp add: transformTemplates_def)
  show ?thesis
    using parseTemplate_Inr(1,2) [OF 1] parseAdds_Inr [OF 2] parseAdds_Inr [OF 3]
    unfolding split by (simp add: cached_append)
qed

lemma parseJWTAuthentications_Inr:
  "parseJWTAuthentications Parse e js = Inr e' \<Longrightarrow>
     e' = e\<lparr>compiledTemplates := cached Parse (jwtTemplates js) (compiledTemplates e)\<rparr>
     \<and> parses Parse (jwtTemplates js)"
proof (induction js arbitrary: e)
  case Nil
  then show ?case by (simp add: jwtTemplates_def)
next
  case (Cons j js)
  from Cons.prems obtain e1 where
    1: "parseParameters Parse e (jwt_In j) = Inr e1" and
    2: "parseJWTAuthentications Parse e1 js = Inr e'"
    by (auto split: sum.splits)
  have split: "jwtTemplates (j # js) = parameterTemplates (jwt_In j) @ jwtTemplates js"
    by (simp add: jwtTemplates_def)
  show ?case
    using parseParameters_Inr [OF 1] Cons.IH [OF 2]
    unfolding split by (simp add: cached_append)
qed


lemma addHTTPMatches_Inr:
  "addHTTPMatches Parse anyMethod e api op ms = Inr e' \<Longrightarrow>
     e' = e\<lparr>compiledTemplates := cached Parse (map m_PathTemplate ms) (compiledTemplates e),
            opPathTree := opPathTree e @
              map (\<lambda>m. (api_ID api # (if m_Method m = anyMethod then wildcard else m_Method m)
                           # Split (m_PathTemplate m) CHR ''/'',
                         \<lparr>operation = op, template = compiled Parse (m_PathTemplate m)\<rparr>)) ms\<rparr>
     \<and> parses Parse (map m_PathTemplate ms)"
proof (induction ms arbitrary: e)
  case Nil
  then show ?case by simp
next
  case (Cons m ms)
  from Cons.prems obtain e1 t where
    1: "parseTemplate Parse e (m_PathTemplate m) = Inr (e1, t)" and
    2: "addHTTPMatches Parse anyMethod
          (e1\<lparr>opPathTree := opPathTree e1 @
             [([api_ID api, (if m_Method m = anyMethod then wildcard else m_Method m)]
                 @ Split (m_PathTemplate m) CHR ''/'',
               \<lparr>operation = op, template = t\<rparr>)]\<rparr>) api op ms = Inr e'"
    by (auto simp: Let_def split: sum.splits)
  show ?case
    using parseTemplate_Inr [OF 1] Cons.IH [OF 2]
    by (simp add: cached_append [where xs = "[x]" for x, simplified])
qed

lemma addOperation_Inr:
  assumes "addOperation Parse anyMethod e api op = Inr e'"
  shows "e' = e\<lparr>compiledTemplates := cached Parse (parsedForOperation op) (compiledTemplates e),
            opPathTree := opPathTree e @ operationEntries Parse anyMethod api op\<rparr>
     \<and> parses Parse (parsedForOperation op)"
proof -
  from assms obtain e1 e2 where
    1: "(if length (op_HTTPMatches op) = 0
         then Inr (e\<lparr>opPathTree := opPathTree e @
                 [([api_ID api, wildcard, wildcard], \<lparr>operation = op, template = None\<rparr>)]\<rparr>)
         else addHTTPMatches Parse anyMethod e api op (op_HTTPMatches op)) = Inr e1" and
    2: "parseParameters Parse e1 (ca_In (op_ConsumerAuthorization op)) = Inr e2" and
    3: "parseHTTPRequestTransforms Parse e2 (op_HTTPRequestTransforms op) = Inr e'"
    by (auto simp: addOperation_def split: sum.splits)
  have first: "e1 = e\<lparr>compiledTemplates :=
                   cached Parse (map m_PathTemplate (op_HTTPMatches op)) (compiledTemplates e),
                 opPathTree := opPathTree e @ operationEntries Parse anyMethod api op\<rparr>
      \<and> parses Parse (map m_PathTemplate (op_HTTPMatches op))"
  proof (cases "op_HTTPMatches op = []")
    case True
    with 1 show ?thesis by (auto simp: operationEntries_def)
  next
    case False
    with 1 have "addHTTPMatches Parse anyMethod e api op (op_HTTPMatches op) = Inr e1"
      by simp
    from addHTTPMatches_Inr [OF this] False show ?thesis
      by (simp add: operationEntries_def)
  qed
  show ?thesis
    using first parseParameters_Inr [OF 2] parseHTTPRequestTransforms_Inr [OF 3]
    by (simp add: parsedForOperation_def cached_append)
qed

lemma addOperations_Inr:
  "addOperations Parse anyMethod e api ops = Inr e' \<Longrightarrow>
     e' = e\<lparr>compiledTemplates :=
              cached Parse (concat (map parsedForOperation ops)) (compiledTemplates e),
            opPathTree := opPathTree e @ concat (map (operationEntries Parse anyMethod api) ops)\<rparr>
     \<and> parses Parse (concat (map parsedForOperation ops))"
proof (induction ops arbitrary: e)
  case Nil
  then show ?case by simp
next
  case (Cons op ops)
  from Cons.prems obtain e1 where
    1: "addOperation Parse anyMethod e api op = Inr e1" and
    2: "addOperations Parse anyMethod e1 api ops = Inr e'"
    by (auto split: sum.splits)
  show ?case
    using addOperation_Inr [OF 1] Cons.IH [OF 2]
    by (simp add: cached_append)
qed

lemma compileRegexes_Inr:
  "compileRegexes MustCompile e rs = (Inr e' :: 'e failure + ('t, 'r) EnvironmentSpecExt) \<Longrightarrow>
     \<exists>c. e' = e\<lparr>compiledRegExps := c\<rparr>"
proof (induction rs arbitrary: e)
  case Nil
  then have "e' = e\<lparr>compiledRegExps := compiledRegExps e\<rparr>" by simp
  then show ?case by blast
next
  case (Cons r rs)
  from Cons.prems obtain re where
    "compileRegexes MustCompile (e\<lparr>compiledRegExps := (compiledRegExps e)(r \<mapsto> re)\<rparr>) rs
       = (Inr e' :: 'e failure + ('t, 'r) EnvironmentSpecExt)"
    by (cases "MustCompile r") auto
  from Cons.IH [OF this] obtain c where
    "e' = e\<lparr>compiledRegExps := (compiledRegExps e)(r \<mapsto> re)\<rparr>\<lparr>compiledRegExps := c\<rparr>"
    by blast
  then have "e' = e\<lparr>compiledRegExps := c\<rparr>" by simp
  then show ?case by blast
qed

lemma allowOrigins_range_mustVary:
  "snd (allowOrigins_range (allowed, mustVary) origins) \<longleftrightarrow> mustVary \<or> wildcard \<in> set origins"
  by (induction origins arbitrary: allowed mustVary) auto

lemma addAPI_Inr:
  assumes "addAPI (Parse :: string \<Rightarrow> 'e + 't) MustCompile anyMethod e api = Inr e'"
  shows "compiledTemplates e' = cached Parse (parsedForAPI api) (compiledTemplates e)"
    and "parses Parse (parsedForAPI api)"
    and "opPathTree e' = opPathTree e
           @ concat (map (operationEntries Parse anyMethod api) (api_Operations api))"
    and "corsVary e' = (corsVary e)(api_ID api \<mapsto> mustVaryOf (api_Cors api))"
    and "EnvironmentSpec e' = EnvironmentSpec e"
proof -
  obtain allowedOrigins mustVary where
    ao: "allowOrigins_range (Map.empty, False) (cors_AllowOrigins (api_Cors api))
           = (allowedOrigins, mustVary)"
    by (cases "allowOrigins_range (Map.empty, False) (cors_AllowOrigins (api_Cors api))")
  have mv: "mustVary \<longleftrightarrow> wildcard \<in> set (cors_AllowOrigins (api_Cors api))"
    using allowOrigins_range_mustVary [of Map.empty False "cors_AllowOrigins (api_Cors api)"] ao
    by simp
  define e2 where "e2 = e\<lparr>apiPathTree := apiPathTree e @
        [([''/''] @ Split (api_BasePath api) CHR ''/'', api)],
      corsAllowedOrigins := (corsAllowedOrigins e)(api_ID api \<mapsto> allowedOrigins)\<rparr>"
  from assms ao obtain e3 e5 e6 where
    3: "compileRegexes MustCompile e2 (cors_AllowOriginsRegexes (api_Cors api))
          = (Inr e3 :: 'e failure + _)" and
    5: "parseParameters Parse
          (e3\<lparr>corsVary := (corsVary e3)(api_ID api \<mapsto>
                (mustVary \<or> length (cors_AllowOriginsRegexes (api_Cors api)) > 0
                  \<or> length (cors_AllowOrigins (api_Cors api)) > 1))\<rparr>)
          (ca_In (api_ConsumerAuthorization api)) = Inr e5" and
    6: "parseHTTPRequestTransforms Parse e5 (api_HTTPRequestTransforms api) = Inr e6" and
    7: "addOperations Parse anyMethod e6 api (api_Operations api) = Inr e'"
    by (auto simp: addAPI_def Let_def e2_def split: sum.splits)
  from compileRegexes_Inr [OF 3] obtain c where e3: "e3 = e2\<lparr>compiledRegExps := c\<rparr>"
    by blast
  note effects = parseParameters_Inr [OF 5] parseHTTPRequestTransforms_Inr [OF 6]
    addOperations_Inr [OF 7]
  show "compiledTemplates e' = cached Parse (parsedForAPI api) (compiledTemplates e)"
    using effects by (simp add: e3 e2_def parsedForAPI_def cached_append)
  show "parses Parse (parsedForAPI api)"
    using effects by (simp add: parsedForAPI_def)
  show "opPathTree e' = opPathTree e
           @ concat (map (operationEntries Parse anyMethod api) (api_Operations api))"
    using effects by (simp add: e3 e2_def)
  show "corsVary e' = (corsVary e)(api_ID api \<mapsto> mustVaryOf (api_Cors api))"
    using effects by (simp add: e3 e2_def mv mustVaryOf_def)
  show "EnvironmentSpec e' = EnvironmentSpec e"
    using effects by (simp add: e3 e2_def)
qed

lemma map_add_upd_first:
  "m(k \<mapsto> v) ++ map_of kvs = m ++ map_of (kvs @ [(k, v)])"
  by (auto simp: map_add_def fun_eq_iff split: option.splits)

lemma addAPIs_Inr:
  "addAPIs Parse MustCompile anyMethod e apis = Inr e' \<Longrightarrow>
     compiledTemplates e' = cached Parse (concat (map parsedForAPI apis)) (compiledTemplates e)
     \<and> parses Parse (concat (map parsedForAPI apis))
     \<and> opPathTree e' = opPathTree e
           @ concat (map (\<lambda>api. concat (map (operationEntries Parse anyMethod api)
                                          (api_Operations api))) apis)
     \<and> corsVary e' = corsVary e
           ++ map_of (rev (map (\<lambda>api. (api_ID api, mustVaryOf (api_Cors api))) apis))
     \<and> EnvironmentSpec e' = EnvironmentSpec e"
proof (induction apis arbitrary: e)
  case Nil
  then show ?case by simp
next
  case (Cons api apis)
  from Cons.prems obtain e1 where
    1: "addAPI Parse MustCompile anyMethod e api = Inr e1" and
    2: "addAPIs Parse MustCompile anyMethod e1 apis = Inr e'"
    by (auto split: sum.splits)
  note first = addAPI_Inr [OF 1] and rest = Cons.IH [OF 2]
  from rest have "corsVary e' = corsVary e1
          ++ map_of (rev (map (\<lambda>api. (api_ID api, mustVaryOf (api_Cors api))) apis))"
    by blast
  then have vary: "corsVary e' = corsVary e
          ++ map_of (rev (map (\<lambda>api. (api_ID api, mustVaryOf (api_Cors api))) (api # apis)))"
    unfolding first(4) by (simp only: map_add_upd_first list.map rev.simps)
  from first(1,2,3,5) rest have
    "compiledTemplates e' =
       cached Parse (concat (map parsedForAPI (api # apis))) (compiledTemplates e)"
    "parses Parse (concat (map parsedForAPI (api # apis)))"
    "opPathTree e' = opPathTree e
           @ concat (map (\<lambda>api. concat (map (operationEntries Parse anyMethod api)
                                          (api_Operations api))) (api # apis))"
    "EnvironmentSpec e' = EnvironmentSpec e"
    by (simp_all add: cached_append)
  with vary show ?case by blast
qed


lemma JWTAuthentications_operations_eq:
  "JWTAuthentications_operations auths ops = auths @ concat (map op_jwtAuthentications ops)"
  by (induction ops arbitrary: auths) simp_all

lemma JWTAuthentications_apis_eq:
  "JWTAuthentications_apis auths apis =
     auths @ concat (map (\<lambda>api. api_jwtAuthentications api
                            @ concat (map op_jwtAuthentications (api_Operations api))) apis)"
  by (induction apis arbitrary: auths) (simp_all add: JWTAuthentications_operations_eq)

lemma NewEnvironmentSpecExt_Inr:
  assumes "NewEnvironmentSpecExt (Parse :: string \<Rightarrow> 'e + 't) MustCompile anyMethod spec
             = Inr (ec :: ('t, 'r) EnvironmentSpecExt)"
  shows "compiledTemplates ec = cached Parse (parsedForSpec spec) Map.empty"
    and "parses Parse (parsedForSpec spec)"
    and "opPathTree ec =
           concat (map (\<lambda>api. concat (map (operationEntries Parse anyMethod api)
                                          (api_Operations api))) (es_APIs spec))"
    and "corsVary ec =
           map_of (rev (map (\<lambda>api. (api_ID api, mustVaryOf (api_Cors api))) (es_APIs spec)))"
    and "EnvironmentSpec ec = spec"
proof -
  define ec0 :: "('t, 'r) EnvironmentSpecExt" where
    "ec0 = \<lparr>EnvironmentSpec = spec, apiPathTree = [], opPathTree = [],
            compiledTemplates = Map.empty, corsVary = Map.empty,
            corsAllowedOrigins = Map.empty, compiledRegExps = Map.empty\<rparr>"
  from assms obtain ec1 where
    1: "addAPIs Parse MustCompile anyMethod ec0 (es_APIs spec) = Inr ec1" and
    2: "parseJWTAuthentications Parse ec1 (JWTAuthentications ec1) = Inr ec"
    by (auto simp: NewEnvironmentSpecExt_def Let_def ec0_def split: sum.splits)
  note apis = addAPIs_Inr [OF 1]
  have jwts: "JWTAuthentications ec1 = JWTAuthentications_apis [] (es_APIs spec)"
    using apis by (simp add: JWTAuthentications_def ec0_def)
  note last = parseJWTAuthentications_Inr [OF 2, unfolded jwts]
  show "compiledTemplates ec = cached Parse (parsedForSpec spec) Map.empty"
    using apis last by (simp add: parsedForSpec_def cached_append ec0_def)
  show "parses Parse (parsedForSpec spec)"
    using apis last by (simp add: parsedForSpec_def)
  show "opPathTree ec =
           concat (map (\<lambda>api. concat (map (operationEntries Parse anyMethod api)
                                          (api_Operations api))) (es_APIs spec))"
    using apis last by (simp add: ec0_def)
  show "corsVary ec =
           map_of (rev (map (\<lambda>api. (api_ID api, mustVaryOf (api_Cors api))) (es_APIs spec)))"
    using apis last by (simp add: ec0_def)
  show "EnvironmentSpec ec = spec"
    using apis last by (simp add: ec0_def)
qed

lemma cached_lookup:
  assumes "parses Parse ss"
  shows "dom (cached Parse ss Map.empty) = {s \<in> set ss. s \<noteq> []}"
    and "s \<in> set ss \<Longrightarrow> s \<noteq> [] \<Longrightarrow> \<exists>t. Parse s = Inr t \<and> cached Parse ss Map.empty s = Some t"
    and "s \<in> set ss \<Longrightarrow> cached Parse ss Map.empty s = compiled Parse s"
proof -
  have ok: "\<And>s. s \<in> set ss \<Longrightarrow> s \<noteq> [] \<Longrightarrow> compiled Parse s \<noteq> None"
    using assms by (auto simp: parses_def list_all_iff)
  show "dom (cached Parse ss Map.empty) = {s \<in> set ss. s \<noteq> []}"
    using ok by (auto simp: cached_def dom_def split: if_splits)
  show "s \<in> set ss \<Longrightarrow> s \<noteq> [] \<Longrightarrow> \<exists>t. Parse s = Inr t \<and> cached Parse ss Map.empty s = Some t"
    using ok [of s] by (auto simp: cached_def compiled_def split: sum.splits)
  show "s \<in> set ss \<Longrightarrow> cached Parse ss Map.empty s = compiled Parse s"
    by (simp add: cached_def compiled_def)
qed

lemma set_jwtTemplates: "set (jwtTemplates js) = (\<Union>j \<in> set js. set (parameterTemplates (jwt_In j)))"
  by (simp add: jwtTemplates_def)

lemma set_parsedForOperation:
  "flattenedOperation op \<Longrightarrow>
     set (parsedForOperation op) \<union> set (jwtTemplates (op_jwtAuthentications op))
       = set (operationTemplates op)"
  by (auto simp: parsedForOperation_def operationTemplates_def flattenedOperation_def)

lemma set_parsedForAPI:
  assumes "flattenedAPI api"
  shows "set (parsedForAPI api)
       \<union> set (jwtTemplates (api_jwtAuthentications api
                  @ concat (map op_jwtAuthentications (api_Operations api))))
       = set (apiTemplates api)"
proof -
  have ops: "\<And>op. op \<in> set (api_Operations api) \<Longrightarrow>
      set (parsedForOperation op) \<union> set (jwtTemplates (op_jwtAuthentications op))
        = set (operationTemplates op)"
    using assms by (simp add: flattenedAPI_def list_all_iff set_parsedForOperation)
  have "(\<Union>op \<in> set (api_Operations api). set (operationTemplates op))
      = (\<Union>op \<in> set (api_Operations api). set (parsedForOperation op))
        \<union> (\<Union>op \<in> set (api_Operations api). set (jwtTemplates (op_jwtAuthentications op)))"
    using ops by blast
  moreover have "api_jwtAuthentications api = flattenJWTs (api_Authentication api)"
    using assms by (simp add: flattenedAPI_def)
  ultimately show ?thesis
    by (auto simp: parsedForAPI_def apiTemplates_def set_jwtTemplates)
qed

lemma set_parsedForSpec:
  assumes "flattenedSpec spec"
  shows "set (parsedForSpec spec) = set (rawTemplateStrings spec)"
proof -
  have apis: "\<And>api. api \<in> set (es_APIs spec) \<Longrightarrow>
      set (parsedForAPI api)
       \<union> set (jwtTemplates (api_jwtAuthentications api
                  @ concat (map op_jwtAuthentications (api_Operations api))))
       = set (apiTemplates api)"
    using assms by (simp add: flattenedSpec_def list_all_iff set_parsedForAPI)
  have "(\<Union>api \<in> set (es_APIs spec). set (apiTemplates api))
      = (\<Union>api \<in> set (es_APIs spec). set (parsedForAPI api))
        \<union> (\<Union>api \<in> set (es_APIs spec).
             set (jwtTemplates (api_jwtAuthentications api
                  @ concat (map op_jwtAuthentications (api_Operations api)))))"
    using apis by blast
  then show ?thesis
    by (simp add: parsedForSpec_def rawTemplateStrings_def JWTAuthentications_apis_eq
        set_jwtTemplates)
qed

lemma set_operationListedTemplates:
  "set (parsedForOperation op) \<union> set (jwtTemplates (op_jwtAuthentications op))
     = set (operationListedTemplates op)"
  by (auto simp: parsedForOperation_def operationListedTemplates_def)

lemma set_apiListedTemplates:
  "set (parsedForAPI api)
     \<union> set (jwtTemplates (api_jwtAuthentications api
                @ concat (map op_jwtAuthentications (api_Operations api))))
     = set (apiListedTemplates api)"
proof -
  have "(\<Union>op \<in> set (api_Operations api). set (operationListedTemplates op))
      = (\<Union>op \<in> set (api_Operations api). set (parsedForOperation op))
        \<union> (\<Union>op \<in> set (api_Operations api). set (jwtTemplates (op_jwtAuthentications op)))"
    using set_operationListedTemplates by blast
  then show ?thesis
    by (auto simp: parsedForAPI_def apiListedTemplates_def set_jwtTemplates)
qed

lemma set_listedTemplateStrings:
  "set (parsedForSpec spec) = set (listedTemplateStrings spec)"
proof -
  have "(\<Union>api \<in> set (es_APIs spec). set (apiListedTemplates api))
      = (\<Union>api \<in> set (es_APIs spec). set (parsedForAPI api))
        \<union> (\<Union>api \<in> set (es_APIs spec).
             set (jwtTemplates (api_jwtAuthentications api
                  @ concat (map op_jwtAuthentications (api_Operations api)))))"
    using set_apiListedTemplates by blast
  then show ?thesis
    by (simp add: parsedForSpec_def listedTemplateStrings_def JWTAuthentications_apis_eq
        set_jwtTemplates)
qed

section \<open>The example specification\<close>

lemmas example_defs = exampleSpec_def operationWithMatches_def operationWithoutMatches_def
  jwtOfOperation_def jwtOfAPI_def zeroConsumerAuthorization_def zeroHTTPRequestTransforms_def
  zeroStringTransformation_def exampleParse_def exampleMustCompile_def

lemmas build_defs = NewEnvironmentSpecExt_def addAPI_def addOperation_def
  parseHTTPRequestTransforms_def parseAPIOperationParameter_def parseTemplate_def
  JWTAuthentications_def wildcard_def

lemma exampleSpec_builds:
  "\<exists>ec. NewEnvironmentSpecExt exampleParse exampleMustCompile ''ANY'' exampleSpec = Inr ec"
  by (simp add: build_defs example_defs)

lemma exampleSpec_flattened: "flattenedSpec exampleSpec"
  by (simp add: flattenedSpec_def flattenedAPI_def flattenedOperation_def example_defs)

section \<open>The aggregate accessor\<close>

text \<open>
  C1, as amended: \<^verbatim>\<open>JWTAuthentications\<close> returns, for each API in the order of
  the specification, the flattened list of that API followed by the flattened
  lists of its operations in their order; the lists of the operations of one API
  come before the list of the next API. Where validation has filled the lists,
  each is the list of the JWT leaves of its requirement tree, depth first.
\<close>

theorem JWTAuthentications_per_API:
  "JWTAuthentications e =
     concat (map (\<lambda>api. api_jwtAuthentications api
                     @ concat (map op_jwtAuthentications (api_Operations api)))
               (es_APIs (EnvironmentSpec e)))
   \<and> (flattenedSpec (EnvironmentSpec e) \<longrightarrow>
        JWTAuthentications e =
          concat (map (\<lambda>api. flattenJWTs (api_Authentication api)
                          @ concat (map (\<lambda>op. flattenJWTs (op_Authentication op))
                                      (api_Operations api)))
                    (es_APIs (EnvironmentSpec e))))"
proof -
  have eq: "JWTAuthentications e =
     concat (map (\<lambda>api. api_jwtAuthentications api
                     @ concat (map op_jwtAuthentications (api_Operations api)))
               (es_APIs (EnvironmentSpec e)))"
    by (simp add: JWTAuthentications_def JWTAuthentications_apis_eq)
  have "concat (map (\<lambda>api. api_jwtAuthentications api
                     @ concat (map op_jwtAuthentications (api_Operations api)))
               (es_APIs (EnvironmentSpec e)))
      = concat (map (\<lambda>api. flattenJWTs (api_Authentication api)
                          @ concat (map (\<lambda>op. flattenJWTs (op_Authentication op))
                                      (api_Operations api)))
                    (es_APIs (EnvironmentSpec e)))"
    if "flattenedSpec (EnvironmentSpec e)"
  proof -
    have "api_jwtAuthentications api @ concat (map op_jwtAuthentications (api_Operations api))
        = flattenJWTs (api_Authentication api)
          @ concat (map (\<lambda>op. flattenJWTs (op_Authentication op)) (api_Operations api))"
      if "api \<in> set (es_APIs (EnvironmentSpec e))" for api
    proof -
      from that \<open>flattenedSpec (EnvironmentSpec e)\<close> have api: "flattenedAPI api"
        by (simp add: flattenedSpec_def list_all_iff)
      then have ops: "map op_jwtAuthentications (api_Operations api)
          = map (\<lambda>op. flattenJWTs (op_Authentication op)) (api_Operations api)"
        by (simp add: flattenedAPI_def list_all_iff flattenedOperation_def)
      show ?thesis
        unfolding ops using api by (simp add: flattenedAPI_def)
    qed
    then show ?thesis
      by (simp cong: map_cong)
  qed
  with eq show ?thesis by simp
qed

theorem JWTAuthentications_per_API_witness:
  "flattenedSpec exampleSpec
   \<and> JWTAuthentications
        (\<lparr>EnvironmentSpec = exampleSpec, apiPathTree = [], opPathTree = [],
          compiledTemplates = Map.empty, corsVary = Map.empty,
          corsAllowedOrigins = Map.empty, compiledRegExps = Map.empty\<rparr>
           :: (string, string) EnvironmentSpecExt)
       = [jwtOfOperation, jwtOfAPI]"
proof -
  note f = exampleSpec_flattened
  show ?thesis
    using f
      JWTAuthentications_per_API
        [of "\<lparr>EnvironmentSpec = exampleSpec, apiPathTree = [], opPathTree = [],
          compiledTemplates = Map.empty, corsVary = Map.empty,
          corsAllowedOrigins = Map.empty, compiledRegExps = Map.empty\<rparr>
           :: (string, string) EnvironmentSpecExt"]
    by (simp add: exampleSpec_def operationWithMatches_def operationWithoutMatches_def)
qed

text \<open>
  The claim C1 as it stands, every API's list and then every operation's list,
  fails on the example specification: the JWT requirement of the operation of
  the first API comes before the JWT requirement of the second API.
\<close>

theorem JWTAuthentications_order_counterexample:
  "JWTAuthentications
        (\<lparr>EnvironmentSpec = exampleSpec, apiPathTree = [], opPathTree = [],
          compiledTemplates = Map.empty, corsVary = Map.empty,
          corsAllowedOrigins = Map.empty, compiledRegExps = Map.empty\<rparr>
           :: (string, string) EnvironmentSpecExt)
       = [jwtOfOperation, jwtOfAPI]
   \<and> allAPIsThenAllOperations exampleSpec = [jwtOfAPI, jwtOfOperation]
   \<and> [jwtOfOperation, jwtOfAPI] \<noteq> [jwtOfAPI, jwtOfOperation]"
  by (simp add: JWTAuthentications_def allAPIsThenAllOperations_def example_defs)

section \<open>The operation tree\<close>

text \<open>
  C7: after a successful construction, the insertions into the operation tree
  are, API by API and operation by operation: for an operation without HTTP
  matches, the one insertion under the key \<^verbatim>\<open>[API ID, "*", "*"]\<close>; for an
  operation with HTTP matches, one insertion for each match, under the API ID,
  the method (the wildcard \<^verbatim>\<open>"*"\<close> in place of the any-method token) and the
  segments of the path template.
\<close>

theorem opPathTree_keys:
  assumes "NewEnvironmentSpecExt Parse MustCompile anyMethod spec = Inr ec"
  shows "opPathTree ec =
     concat (map (\<lambda>api. concat (map (\<lambda>op.
         if op_HTTPMatches op = []
         then [([api_ID api, ''*'', ''*''], \<lparr>operation = op, template = None\<rparr>)]
         else map (\<lambda>m. (api_ID api # (if m_Method m = anyMethod then ''*'' else m_Method m)
                           # Split (m_PathTemplate m) CHR ''/'',
                         \<lparr>operation = op, template = GetTemplate ec (m_PathTemplate m)\<rparr>))
                (op_HTTPMatches op))
       (api_Operations api))) (es_APIs spec))"
proof -
  note built = NewEnvironmentSpecExt_Inr [OF assms]
  have template: "GetTemplate ec (m_PathTemplate m) = compiled Parse (m_PathTemplate m)"
    if "api \<in> set (es_APIs spec)" "op \<in> set (api_Operations api)" "m \<in> set (op_HTTPMatches op)"
    for api op m
  proof -
    from that have "m_PathTemplate m \<in> set (parsedForSpec spec)"
      by (auto simp: parsedForSpec_def parsedForAPI_def parsedForOperation_def)
    with cached_lookup(3) [OF built(2)] show ?thesis
      by (simp add: GetTemplate_def built(1))
  qed
  have "operationEntries Parse anyMethod api op =
      (if op_HTTPMatches op = []
         then [([api_ID api, ''*'', ''*''], \<lparr>operation = op, template = None\<rparr>)]
         else map (\<lambda>m. (api_ID api # (if m_Method m = anyMethod then ''*'' else m_Method m)
                           # Split (m_PathTemplate m) CHR ''/'',
                         \<lparr>operation = op, template = GetTemplate ec (m_PathTemplate m)\<rparr>))
                (op_HTTPMatches op))"
    if "api \<in> set (es_APIs spec)" "op \<in> set (api_Operations api)" for api op
    using template [OF that] by (simp add: operationEntries_def wildcard_def cong: map_cong)
  then show ?thesis
    unfolding built(3) by (simp cong: map_cong)
qed

theorem opPathTree_keys_witness:
  "\<exists>ec. NewEnvironmentSpecExt exampleParse exampleMustCompile ''ANY'' exampleSpec = Inr ec
     \<and> opPathTree ec =
         [([''apispec1'', ''GET'', [], ''petstore''],
           \<lparr>operation = operationWithMatches, template = Some ''/petstore''\<rparr>),
          ([''apispec1'', ''*'', [], ''pets'', ''{id}''],
           \<lparr>operation = operationWithMatches, template = Some ''/pets/{id}''\<rparr>),
          ([''apispec1'', ''*'', ''*''],
           \<lparr>operation = operationWithoutMatches, template = None\<rparr>)]"
proof -
  obtain ec where
    built: "NewEnvironmentSpecExt exampleParse exampleMustCompile ''ANY'' exampleSpec = Inr ec"
    using exampleSpec_builds by blast
  have "GetTemplate ec ''/petstore'' = Some ''/petstore''"
    and "GetTemplate ec ''/pets/{id}'' = Some ''/pets/{id}''"
    using built by (auto simp: build_defs GetTemplate_def example_defs)
  with opPathTree_keys [OF built] have "opPathTree ec =
         [([''apispec1'', ''GET'', [], ''petstore''],
           \<lparr>operation = operationWithMatches, template = Some ''/petstore''\<rparr>),
          ([''apispec1'', ''*'', [], ''pets'', ''{id}''],
           \<lparr>operation = operationWithMatches, template = Some ''/pets/{id}''\<rparr>),
          ([''apispec1'', ''*'', ''*''],
           \<lparr>operation = operationWithoutMatches, template = None\<rparr>)]"
    by (simp add: example_defs)
  with built show ?thesis by blast
qed

section \<open>The CORS flag\<close>

text \<open>
  C8: the flag that a successful construction stores for an API is true if and
  only if the literal origins contain the wildcard origin \<^verbatim>\<open>"*"\<close>, or there is
  an origin regular expression, or there is more than one literal origin. The
  flags are stored under the API IDs, a later API replacing an earlier one of
  the same ID; with the IDs distinct, as validation requires, every API finds its
  own flag.
\<close>

theorem corsVary_flag:
  assumes "NewEnvironmentSpecExt Parse MustCompile anyMethod spec = Inr ec"
  shows "corsVary ec =
           map_of (rev (map (\<lambda>api. (api_ID api,
                    ''*'' \<in> set (cors_AllowOrigins (api_Cors api))
                    \<or> cors_AllowOriginsRegexes (api_Cors api) \<noteq> []
                    \<or> length (cors_AllowOrigins (api_Cors api)) > 1)) (es_APIs spec)))
         \<and> (distinct (map api_ID (es_APIs spec)) \<longrightarrow>
              (\<forall>api \<in> set (es_APIs spec).
                 corsVary ec (api_ID api) =
                   Some (''*'' \<in> set (cors_AllowOrigins (api_Cors api))
                         \<or> cors_AllowOriginsRegexes (api_Cors api) \<noteq> []
                         \<or> length (cors_AllowOrigins (api_Cors api)) > 1)))"
proof -
  let ?flag = "\<lambda>api. ''*'' \<in> set (cors_AllowOrigins (api_Cors api))
                    \<or> cors_AllowOriginsRegexes (api_Cors api) \<noteq> []
                    \<or> length (cors_AllowOrigins (api_Cors api)) > 1"
  have whole: "corsVary ec = map_of (rev (map (\<lambda>api. (api_ID api, ?flag api)) (es_APIs spec)))"
    using NewEnvironmentSpecExt_Inr(4) [OF assms] by (simp add: mustVaryOf_def wildcard_def)
  have "corsVary ec (api_ID api) = Some (?flag api)"
    if d: "distinct (map api_ID (es_APIs spec))" and api: "api \<in> set (es_APIs spec)" for api
  proof -
    have "distinct (map fst (rev (map (\<lambda>api. (api_ID api, ?flag api)) (es_APIs spec))))"
      using d by (simp add: rev_map [symmetric] comp_def)
    moreover have "(api_ID api, ?flag api)
        \<in> set (rev (map (\<lambda>api. (api_ID api, ?flag api)) (es_APIs spec)))"
      using api by auto
    ultimately show ?thesis
      unfolding whole by (rule map_of_is_SomeI)
  qed
  with whole show ?thesis by blast
qed

theorem corsVary_flag_witness:
  "distinct (map api_ID (es_APIs exampleSpec))
   \<and> (\<exists>ec. NewEnvironmentSpecExt exampleParse exampleMustCompile ''ANY'' exampleSpec = Inr ec
        \<and> corsVary ec ''apispec1'' = Some True \<and> corsVary ec ''apispec2'' = Some False)"
proof -
  obtain ec where
    built: "NewEnvironmentSpecExt exampleParse exampleMustCompile ''ANY'' exampleSpec = Inr ec"
    using exampleSpec_builds by blast
  have d: "distinct (map api_ID (es_APIs exampleSpec))"
    by (simp add: exampleSpec_def)
  from corsVary_flag [OF built] d
  have "corsVary ec ''apispec1'' = Some True \<and> corsVary ec ''apispec2'' = Some False"
    by (simp add: exampleSpec_def)
  with built d show ?thesis by blast
qed

section \<open>The template cache\<close>

text \<open>
  C6, as amended: a successful construction leaves a cache with exactly as
  many entries as there are distinct non-empty raw template strings at the
  path-match, transform and binding positions of the specification, the bindings
  of the JWT requirements being those of the flattened lists; and \<^verbatim>\<open>GetTemplate\<close>
  on each of these strings returns the template that \<open>Parse\<close> compiled from it.
  For a specification that validation has run on, the flattened lists hold every
  JWT requirement of the requirement trees, and the count is that of all
  positions of the specification.
\<close>

theorem compiledTemplates_count:
  assumes "NewEnvironmentSpecExt Parse MustCompile anyMethod spec = Inr ec"
  shows "card (dom (compiledTemplates ec))
           = length (remdups (filter (\<lambda>s. s \<noteq> []) (listedTemplateStrings spec)))
         \<and> (\<forall>s \<in> set (listedTemplateStrings spec).
               s \<noteq> [] \<longrightarrow> (\<exists>t. Parse s = Inr t \<and> GetTemplate ec s = Some t))
         \<and> (flattenedSpec spec \<longrightarrow>
               card (dom (compiledTemplates ec))
                 = length (remdups (filter (\<lambda>s. s \<noteq> []) (rawTemplateStrings spec)))
               \<and> (\<forall>s \<in> set (rawTemplateStrings spec).
                     s \<noteq> [] \<longrightarrow> (\<exists>t. Parse s = Inr t \<and> GetTemplate ec s = Some t)))"
proof -
  note built = NewEnvironmentSpecExt_Inr [OF assms]
  have counted: "card (dom (compiledTemplates ec)) = length (remdups (filter (\<lambda>s. s \<noteq> []) ss))
      \<and> (\<forall>s \<in> set ss. s \<noteq> [] \<longrightarrow> (\<exists>t. Parse s = Inr t \<and> GetTemplate ec s = Some t))"
    if same: "set (parsedForSpec spec) = set ss" for ss
  proof -
    have "dom (compiledTemplates ec) = set (filter (\<lambda>s. s \<noteq> []) ss)"
      using cached_lookup(1) [OF built(2)] by (auto simp: built(1) same)
    then have "card (dom (compiledTemplates ec)) = length (remdups (filter (\<lambda>s. s \<noteq> []) ss))"
      by (simp only: length_remdups_card_conv)
    moreover have "\<exists>t. Parse s = Inr t \<and> GetTemplate ec s = Some t"
      if "s \<in> set ss" "s \<noteq> []" for s
      using cached_lookup(2) [OF built(2), of s] that
      by (simp add: GetTemplate_def built(1) same)
    ultimately show ?thesis by blast
  qed
  from counted [OF set_listedTemplateStrings]
    counted [OF set_parsedForSpec]
  show ?thesis by blast
qed

lemmas listed_defs = listedTemplateStrings_def apiListedTemplates_def
  operationListedTemplates_def rawTemplateStrings_def apiTemplates_def operationTemplates_def
  transformTemplates_def parameterTemplates_def jwtTemplates_def

theorem compiledTemplates_count_witness:
  "flattenedSpec exampleSpec
   \<and> (\<exists>ec. NewEnvironmentSpecExt exampleParse exampleMustCompile ''ANY'' exampleSpec = Inr ec
        \<and> card (dom (compiledTemplates ec)) = 7
        \<and> GetTemplate ec ''{identity}'' = Some ''{identity}'')"
proof -
  obtain ec where
    built: "NewEnvironmentSpecExt exampleParse exampleMustCompile ''ANY'' exampleSpec = Inr ec"
    using exampleSpec_builds by blast
  note f = exampleSpec_flattened
  have strings: "rawTemplateStrings exampleSpec =
      [[], ''target'', ''Bearer {token}'', ''{token}'', ''/petstore'', ''/pets/{id}'',
       ''/target_prefix/{path}'', ''{identity}'', ''{identity}'', [], [], [], [], [], []]"
    by (simp add: listed_defs example_defs)
  from compiledTemplates_count [OF built] f
  have "card (dom (compiledTemplates ec)) = 7
        \<and> GetTemplate ec ''{identity}'' = Some ''{identity}''"
    unfolding strings by (auto simp: exampleParse_def)
  with built f show ?thesis by blast
qed

text \<open>
  The claim C6 as it stands, for every specification, fails on a specification
  that validation has not run on: the construction succeeds and caches nothing,
  while the specification has one raw template string, in the binding of the JWT
  requirement of its API.
\<close>

theorem compiledTemplates_count_counterexample:
  "NewEnvironmentSpecExt exampleParse exampleMustCompile ''ANY'' unvalidatedSpec
     = Inr unvalidatedExt
   \<and> card (dom (compiledTemplates unvalidatedExt)) = 0
   \<and> GetTemplate unvalidatedExt ''{identity}'' = None
   \<and> remdups (filter (\<lambda>s. s \<noteq> []) (rawTemplateStrings unvalidatedSpec)) = [''{identity}'']"
  by (simp add: build_defs listed_defs example_defs unvalidatedSpec_def unvalidatedAPI_def
      unvalidatedExt_def GetTemplate_def)

end
